theory Spec2Isabelle
  imports Complex_Main "HOL-Library.Word"
begin

section \<open>Single-precision numbers\<close>

text \<open>
  The C++ type \<open>float\<close> of the sources (\<open>cameraX\<close>, \<open>moveSpeed\<close>, \<open>angle\<close>, the vertex
  data) is IEEE-754 binary32.  A finite value is kept as its integer significand and its
  exponent, \<open>Finite m e\<close> standing for \<open>m * 2 ^ e\<close> with \<open>\<bar>m\<bar> < 2 ^ 24\<close> and
  \<open>- 149 \<le> e \<le> 104\<close>; normal numbers have \<open>2 ^ 23 \<le> \<bar>m\<bar>\<close>, subnormal numbers and zero
  have \<open>e = - 149\<close>.  The two zeros are not told apart (they compare equal in C++).
\<close>

datatype f32 = Finite int int | Infinity bool | NaN

text \<open>The number of binary digits of \<open>\<bar>m\<bar>\<close>.\<close>

function bit_count :: "int \<Rightarrow> int" where
  "bit_count m = (if m = 0 then 0 else 1 + bit_count (\<bar>m\<bar> div 2))"
  by pat_completeness auto
termination
  by (relation "measure (\<lambda>m. nat \<bar>m\<bar>)") auto

declare bit_count.simps [simp del]

text \<open>\<open>m / 2 ^ k\<close> rounded to the nearest integer, ties to the even one.\<close>

definition round_shift :: "int \<Rightarrow> nat \<Rightarrow> int" where
  "round_shift m k =
     (let q = m div 2 ^ k; r = m mod 2 ^ k in
      if 2 * r < 2 ^ k then q
      else if 2 ^ k < 2 * r then q + 1
      else if even q then q else q + 1)"

text \<open>
  \<open>f32_round m e\<close> is the binary32 value nearest to the exact number \<open>m * 2 ^ e\<close>
  (round to nearest, ties to even, overflow to infinity): drop as many low bits as the
  24-bit significand and the least exponent \<open>- 149\<close> ask for, renormalise after a carry,
  then shift a short significand left as far as the exponent range allows.
\<close>

definition f32_round :: "int \<Rightarrow> int \<Rightarrow> f32" where
  "f32_round m e =
     (let k = max 0 (max (bit_count m - 24) (- 149 - e));
          q = round_shift m (nat k);
          e1 = e + k;
          j = max 0 (min (24 - bit_count q) (e1 + 149));
          q2 = q * 2 ^ nat j;
          e2 = e1 - j
      in if q = 0 then Finite 0 (- 149)
         else if \<bar>q2\<bar> = 2 ^ 24 then
           (if 104 \<le> e2 then Infinity (q < 0) else Finite (q2 div 2) (e2 + 1))
         else if 104 < e2 then Infinity (q < 0)
         else Finite q2 e2)"

text \<open>
  A decimal literal such as \<open>0.01f\<close> denotes the binary32 value nearest to the rational
  \<open>p / q\<close> it spells.  The quotient is taken with 200 extra binary digits and a sticky
  last bit, which is enough for the rounding to be the correct one.
\<close>

definition f32_lit :: "int \<Rightarrow> int \<Rightarrow> f32" where
  "f32_lit p q =
     (let n = (\<bar>p\<bar> * 2 ^ 200) div \<bar>q\<bar>;
          sticky = (if (\<bar>p\<bar> * 2 ^ 200) mod \<bar>q\<bar> = 0 then 0 else 1);
          s = (if (p < 0) = (q < 0) then 1 else - 1)
      in f32_round (s * (2 * n + sticky)) (- 201))"

text \<open>The operators \<open>+\<close> and \<open>-\<close> on \<open>float\<close>: the exact result, rounded once.\<close>

fun f32_add :: "f32 \<Rightarrow> f32 \<Rightarrow> f32" where
  "f32_add (Finite m1 e1) (Finite m2 e2) =
     (let e = min e1 e2
      in f32_round (m1 * 2 ^ nat (e1 - e) + m2 * 2 ^ nat (e2 - e)) e)"
| "f32_add NaN _ = NaN"
| "f32_add _ NaN = NaN"
| "f32_add (Infinity s) (Infinity t) = (if s = t then Infinity s else NaN)"
| "f32_add (Infinity s) (Finite _ _) = Infinity s"
| "f32_add (Finite _ _) (Infinity t) = Infinity t"

declare f32_add.simps [simp del]

fun f32_neg :: "f32 \<Rightarrow> f32" where
  "f32_neg (Finite m e) = Finite (- m) e"
| "f32_neg (Infinity s) = Infinity (\<not> s)"
| "f32_neg NaN = NaN"

definition f32_sub :: "f32 \<Rightarrow> f32 \<Rightarrow> f32" where
  "f32_sub x y = f32_add x (f32_neg y)"

text \<open>The real number a finite value stands for.\<close>

fun f32_value :: "f32 \<Rightarrow> real" where
  "f32_value (Finite m e) = (if 0 \<le> e then of_int m * 2 ^ nat e else of_int m / 2 ^ nat (- e))"
| "f32_value (Infinity _) = 0"
| "f32_value NaN = 0"

section \<open>The graphics device and the platform\<close>

text \<open>
  OpenGL, GLEW, SDL and GLM are libraries the program calls; their code is not part of the
  repository.  Every call the program makes is recorded, in order and with its arguments
  and result, in the \<open>trace\<close>; console output (\<open>std::cout\<close>) is recorded there too, one
  \<open>Cout\<close> for the insertions that follow one another with no call between them.  Of
  the device's state the model keeps what the program can observe or leak: the names
  of the live objects, the shader and program objects, the bindings that \<open>Mesh\<close> and
  \<open>Shader\<close> change, and whether SDL, the window and the context are up.  The GL error
  flag, which the program never reads, is not kept.
\<close>

datatype shader_type = GL_VERTEX_SHADER | GL_FRAGMENT_SHADER
datatype buffer_target = GL_ARRAY_BUFFER | GL_ELEMENT_ARRAY_BUFFER
datatype buffer_bit = GL_COLOR_BUFFER_BIT | GL_DEPTH_BUFFER_BIT
datatype buffer_data = Floats "f32 list" | UInts "32 word list"
datatype sdl_event = SDL_QUIT | Other_event nat
datatype scancode =
  SDL_SCANCODE_W | SDL_SCANCODE_S | SDL_SCANCODE_D | SDL_SCANCODE_A
  | SDL_SCANCODE_SPACE | SDL_SCANCODE_LSHIFT | Other_scancode nat

datatype gl_attr =
  SDL_GL_CONTEXT_MAJOR_VERSION | SDL_GL_CONTEXT_MINOR_VERSION | SDL_GL_CONTEXT_PROFILE_MASK

text \<open>Values of GLM, kept as the expressions that build them.\<close>

datatype vec3 = Vec3 f32 f32 f32
datatype mat4 =
  Mat4_identity
  | Perspective_radians f32 f32 f32 f32 f32
    \<comment> \<open>\<open>perspective(radians(a), w / h, near, far)\<close>\<close>
  | LookAt vec3 vec3 vec3
  | Rotate mat4 f32 vec3
  | Times mat4 mat4

datatype call =
  SDL_Init int
  | SDL_GetError string
  | SDL_GL_SetAttribute gl_attr int
  | SDL_CreateWindow string nat nat bool
  | SDL_GL_CreateContext bool
  | Set_glewExperimental bool
  | GlewInit bool
  | SDL_GetKeyboardState
  | SDL_PollEvent "sdl_event option"
  | SDL_GL_SwapWindow
  | SDL_GL_DeleteContext
  | SDL_DestroyWindow
  | SDL_Quit
  | Cout string
  | GlEnable_DEPTH_TEST
  | GlClearColor f32 f32 f32 f32
  | GlClear "buffer_bit list"
  | GlCreateShader shader_type nat
  | GlShaderSource nat string
  | GlCompileShader nat
  | GlGetShaderiv_COMPILE_STATUS nat bool
  | GlGetShaderInfoLog nat nat string
  | GlCreateProgram nat
  | GlAttachShader nat nat
  | GlLinkProgram nat
  | GlGetProgramiv_LINK_STATUS nat bool
  | GlGetProgramInfoLog nat nat string
  | GlDeleteShader nat
  | GlDeleteProgram nat
  | GlUseProgram nat
  | GlGetUniformLocation nat string int
  | GlUniform1f int f32
  | GlUniformMatrix4fv int nat bool mat4
  | GlGenVertexArrays nat
  | GlGenBuffers nat
  | GlBindVertexArray nat
  | GlBindBuffer buffer_target nat
  | GlBufferData_STATIC_DRAW buffer_target nat buffer_data
  | GlVertexAttribPointer_FLOAT nat nat bool nat nat
  | GlEnableVertexAttribArray nat
  | GlDrawElements_TRIANGLES_UNSIGNED_INT "32 word" nat
  | GlDeleteVertexArrays nat
  | GlDeleteBuffers nat

datatype uniform_value = Uniform_float f32 | Uniform_mat4 mat4

record shader_obj =
  so_type :: shader_type
  so_source :: string
  so_compiled :: bool
  so_log :: string
  so_delete_pending :: bool

record program_obj =
  po_attached :: "nat list"
  po_linked :: bool
  po_log :: string
  po_locations :: "(string \<times> int) list"
  po_values :: "int \<rightharpoonup> uniform_value"
  po_delete_pending :: bool

record world =
  trace :: "call list"
  vertex_arrays :: "nat list"
  buffers :: "nat list"
  object_names :: "nat list"
  shaders :: "nat \<rightharpoonup> shader_obj"
  programs :: "nat \<rightharpoonup> program_obj"
  vertex_array_binding :: nat
  array_buffer_binding :: nat
  current_program :: nat
  glsl_compile :: "shader_type \<Rightarrow> string \<Rightarrow> bool \<times> string"
  glsl_link :: "shader_obj list \<Rightarrow> bool \<times> string \<times> (string \<times> int) list"
  sdl_up :: bool
  window_live :: bool
  context_live :: bool

definition emit :: "call \<Rightarrow> world \<Rightarrow> world" where
  "emit c w = w\<lparr>trace := trace w @ [c]\<rparr>"

text \<open>A name that is not in use: object names are handed out by the driver, never 0.\<close>

definition fresh_name :: "nat list \<Rightarrow> nat" where
  "fresh_name xs = Suc (fold max xs 0)"

subsection \<open>Vertex arrays and buffers\<close>

definition glGenVertexArrays :: "world \<Rightarrow> nat \<times> world" where
  "glGenVertexArrays w =
     (let n = fresh_name (vertex_arrays w)
      in (n, emit (GlGenVertexArrays n) (w\<lparr>vertex_arrays := n # vertex_arrays w\<rparr>)))"

definition glGenBuffers :: "world \<Rightarrow> nat \<times> world" where
  "glGenBuffers w =
     (let n = fresh_name (buffers w)
      in (n, emit (GlGenBuffers n) (w\<lparr>buffers := n # buffers w\<rparr>)))"

text \<open>Binding a name that is neither 0 nor a live vertex array is an error and binds nothing.\<close>

definition glBindVertexArray :: "nat \<Rightarrow> world \<Rightarrow> world" where
  "glBindVertexArray n w =
     emit (GlBindVertexArray n)
       (if n = 0 \<or> n \<in> set (vertex_arrays w) then w\<lparr>vertex_array_binding := n\<rparr> else w)"

definition glBindBuffer :: "buffer_target \<Rightarrow> nat \<Rightarrow> world \<Rightarrow> world" where
  "glBindBuffer t n w =
     emit (GlBindBuffer t n)
       (if t = GL_ARRAY_BUFFER \<and> (n = 0 \<or> n \<in> set (buffers w))
        then w\<lparr>array_buffer_binding := n\<rparr> else w)"

definition glBufferData :: "buffer_target \<Rightarrow> nat \<Rightarrow> buffer_data \<Rightarrow> world \<Rightarrow> world" where
  "glBufferData t size_bytes d w = emit (GlBufferData_STATIC_DRAW t size_bytes d) w"

definition glVertexAttribPointer :: "nat \<Rightarrow> nat \<Rightarrow> bool \<Rightarrow> nat \<Rightarrow> nat \<Rightarrow> world \<Rightarrow> world" where
  "glVertexAttribPointer i n normalized stride off w =
     emit (GlVertexAttribPointer_FLOAT i n normalized stride off) w"

definition glEnableVertexAttribArray :: "nat \<Rightarrow> world \<Rightarrow> world" where
  "glEnableVertexAttribArray i w = emit (GlEnableVertexAttribArray i) w"

definition glDrawElements :: "32 word \<Rightarrow> nat \<Rightarrow> world \<Rightarrow> world" where
  "glDrawElements n off w = emit (GlDrawElements_TRIANGLES_UNSIGNED_INT n off) w"

text \<open>Deleting ignores 0 and names that are not in use; a deleted object that is bound is unbound.\<close>

definition glDeleteVertexArrays :: "nat \<Rightarrow> world \<Rightarrow> world" where
  "glDeleteVertexArrays n w =
     emit (GlDeleteVertexArrays n)
       (w\<lparr>vertex_arrays := removeAll n (vertex_arrays w),
          vertex_array_binding :=
            (if n \<in> set (vertex_arrays w) \<and> vertex_array_binding w = n then 0
             else vertex_array_binding w)\<rparr>)"

definition glDeleteBuffers :: "nat \<Rightarrow> world \<Rightarrow> world" where
  "glDeleteBuffers n w =
     emit (GlDeleteBuffers n)
       (w\<lparr>buffers := removeAll n (buffers w),
          array_buffer_binding :=
            (if n \<in> set (buffers w) \<and> array_buffer_binding w = n then 0
             else array_buffer_binding w)\<rparr>)"

subsection \<open>Shader and program objects\<close>

text \<open>
  The GLSL compiler and linker belong to the driver: \<open>glsl_compile\<close> gives the compile
  status and the information log of a source text, \<open>glsl_link\<close> the link status, the
  log and the locations of the active uniforms of the attached shaders.  Creating an
  object always succeeds here.  Information logs are C strings (no NUL inside).
\<close>

text \<open>What a C function reads from a \<open>const char*\<close>: the characters before the first NUL.\<close>

definition c_string :: "string \<Rightarrow> string" where
  "c_string s = takeWhile (\<lambda>c. c \<noteq> CHR 0x00) s"

definition glCreateShader :: "shader_type \<Rightarrow> world \<Rightarrow> nat \<times> world" where
  "glCreateShader t w =
     (let n = fresh_name (object_names w)
      in (n, emit (GlCreateShader t n)
               (w\<lparr>object_names := n # object_names w,
                  shaders := (shaders w)(n \<mapsto>
                    \<lparr>so_type = t, so_source = [], so_compiled = False, so_log = [],
                     so_delete_pending = False\<rparr>)\<rparr>)))"

definition glShaderSource :: "nat \<Rightarrow> string \<Rightarrow> world \<Rightarrow> world" where
  "glShaderSource n src w =
     emit (GlShaderSource n src)
       (case shaders w n of
          None \<Rightarrow> w
        | Some so \<Rightarrow> w\<lparr>shaders := (shaders w)(n \<mapsto> so\<lparr>so_source := src\<rparr>)\<rparr>)"

definition glCompileShader :: "nat \<Rightarrow> world \<Rightarrow> world" where
  "glCompileShader n w =
     emit (GlCompileShader n)
       (case shaders w n of
          None \<Rightarrow> w
        | Some so \<Rightarrow>
            (let (ok, info) = glsl_compile w (so_type so) (so_source so)
             in w\<lparr>shaders := (shaders w)(n \<mapsto> so\<lparr>so_compiled := ok, so_log := info\<rparr>)\<rparr>))"

text \<open>
  The queries write through a pointer; for a name that is no object of the right kind
  they write nothing (\<open>None\<close>) and the caller's variable stays uninitialised.
\<close>

definition glGetShaderiv_COMPILE_STATUS :: "nat \<Rightarrow> world \<Rightarrow> bool option \<times> world" where
  "glGetShaderiv_COMPILE_STATUS n w =
     (case shaders w n of
        None \<Rightarrow> (None, emit (GlGetShaderiv_COMPILE_STATUS n False) w)
      | Some so \<Rightarrow> (Some (so_compiled so), emit (GlGetShaderiv_COMPILE_STATUS n (so_compiled so)) w))"

text \<open>A buffer of \<open>bufSize\<close> characters receives at most \<open>bufSize - 1\<close> of the log and a NUL.\<close>

definition glGetShaderInfoLog :: "nat \<Rightarrow> nat \<Rightarrow> world \<Rightarrow> string option \<times> world" where
  "glGetShaderInfoLog n bufSize w =
     (case shaders w n of
        None \<Rightarrow> (None, emit (GlGetShaderInfoLog n bufSize []) w)
      | Some so \<Rightarrow>
          (let text = take (bufSize - 1) (so_log so)
           in (Some text, emit (GlGetShaderInfoLog n bufSize text) w)))"

definition glCreateProgram :: "world \<Rightarrow> nat \<times> world" where
  "glCreateProgram w =
     (let n = fresh_name (object_names w)
      in (n, emit (GlCreateProgram n)
               (w\<lparr>object_names := n # object_names w,
                  programs := (programs w)(n \<mapsto>
                    \<lparr>po_attached = [], po_linked = False, po_log = [], po_locations = [],
                     po_values = Map.empty, po_delete_pending = False\<rparr>)\<rparr>)))"

definition glAttachShader :: "nat \<Rightarrow> nat \<Rightarrow> world \<Rightarrow> world" where
  "glAttachShader p n w =
     emit (GlAttachShader p n)
       (case (programs w p, shaders w n) of
          (Some po, Some so) \<Rightarrow>
            (if n \<in> set (po_attached po) then w
             else w\<lparr>programs := (programs w)(p \<mapsto> po\<lparr>po_attached := po_attached po @ [n]\<rparr>)\<rparr>)
        | _ \<Rightarrow> w)"

definition glLinkProgram :: "nat \<Rightarrow> world \<Rightarrow> world" where
  "glLinkProgram p w =
     emit (GlLinkProgram p)
       (case programs w p of
          None \<Rightarrow> w
        | Some po \<Rightarrow>
            (let (ok, info, locs) = glsl_link w (List.map_filter (shaders w) (po_attached po))
             in w\<lparr>programs := (programs w)(p \<mapsto>
                    po\<lparr>po_linked := ok, po_log := info,
                       po_locations := (if ok then locs else []),
                       po_values := Map.empty\<rparr>)\<rparr>))"

definition glGetProgramiv_LINK_STATUS :: "nat \<Rightarrow> world \<Rightarrow> bool option \<times> world" where
  "glGetProgramiv_LINK_STATUS p w =
     (case programs w p of
        None \<Rightarrow> (None, emit (GlGetProgramiv_LINK_STATUS p False) w)
      | Some po \<Rightarrow> (Some (po_linked po), emit (GlGetProgramiv_LINK_STATUS p (po_linked po)) w))"

definition glGetProgramInfoLog :: "nat \<Rightarrow> nat \<Rightarrow> world \<Rightarrow> string option \<times> world" where
  "glGetProgramInfoLog p bufSize w =
     (case programs w p of
        None \<Rightarrow> (None, emit (GlGetProgramInfoLog p bufSize []) w)
      | Some po \<Rightarrow>
          (let text = take (bufSize - 1) (po_log po)
           in (Some text, emit (GlGetProgramInfoLog p bufSize text) w)))"

definition attached_somewhere :: "world \<Rightarrow> nat \<Rightarrow> bool" where
  "attached_somewhere w n =
     (\<exists>p \<in> set (object_names w).
        case programs w p of None \<Rightarrow> False | Some po \<Rightarrow> n \<in> set (po_attached po))"

definition remove_shader :: "nat \<Rightarrow> world \<Rightarrow> world" where
  "remove_shader n w =
     w\<lparr>shaders := (shaders w)(n := None), object_names := removeAll n (object_names w)\<rparr>"

text \<open>A shader that is attached to a program is only flagged; it goes with the program.\<close>

definition glDeleteShader :: "nat \<Rightarrow> world \<Rightarrow> world" where
  "glDeleteShader n w =
     emit (GlDeleteShader n)
       (case shaders w n of
          None \<Rightarrow> w
        | Some so \<Rightarrow>
            (if attached_somewhere w n
             then w\<lparr>shaders := (shaders w)(n \<mapsto> so\<lparr>so_delete_pending := True\<rparr>)\<rparr>
             else remove_shader n w))"

definition release_program :: "nat \<Rightarrow> world \<Rightarrow> world" where
  "release_program p w =
     (case programs w p of
        None \<Rightarrow> w
      | Some po \<Rightarrow>
          fold (\<lambda>n w. case shaders w n of
                         None \<Rightarrow> w
                       | Some so \<Rightarrow>
                           (if so_delete_pending so \<and> \<not> attached_somewhere w n
                            then remove_shader n w else w))
            (po_attached po)
            (w\<lparr>programs := (programs w)(p := None),
               object_names := removeAll p (object_names w)\<rparr>))"

text \<open>The program in use is only flagged for deletion.\<close>

definition glDeleteProgram :: "nat \<Rightarrow> world \<Rightarrow> world" where
  "glDeleteProgram p w =
     emit (GlDeleteProgram p)
       (case programs w p of
          None \<Rightarrow> w
        | Some po \<Rightarrow>
            (if current_program w = p
             then w\<lparr>programs := (programs w)(p \<mapsto> po\<lparr>po_delete_pending := True\<rparr>)\<rparr>
             else release_program p w))"

text \<open>Only 0 and linked programs can be made current.\<close>

definition glUseProgram :: "nat \<Rightarrow> world \<Rightarrow> world" where
  "glUseProgram p w =
     emit (GlUseProgram p)
       (if p = 0 \<or> (case programs w p of None \<Rightarrow> False | Some po \<Rightarrow> po_linked po)
        then (let old = current_program w;
                  w = w\<lparr>current_program := p\<rparr>
              in case programs w old of
                   None \<Rightarrow> w
                 | Some po \<Rightarrow> (if po_delete_pending po \<and> old \<noteq> p then release_program old w else w))
        else w)"

text \<open>
  As the OpenGL reference defines them: \<open>glGetUniformLocation\<close> gives \<open>-1\<close> for a
  name that is no active uniform of a linked program; the \<open>glUniform*\<close> calls write to
  the program in use, and ignore location \<open>-1\<close>.
\<close>

definition glGetUniformLocation :: "nat \<Rightarrow> string \<Rightarrow> world \<Rightarrow> int \<times> world" where
  "glGetUniformLocation p name w =
     (let loc = (case programs w p of
                   None \<Rightarrow> - 1
                 | Some po \<Rightarrow>
                     (if po_linked po
                      then (case map_of (po_locations po) name of None \<Rightarrow> - 1 | Some l \<Rightarrow> l)
                      else - 1))
      in (loc, emit (GlGetUniformLocation p name loc) w))"

definition write_uniform :: "int \<Rightarrow> uniform_value \<Rightarrow> world \<Rightarrow> world" where
  "write_uniform loc v w =
     (if loc = - 1 then w
      else (case programs w (current_program w) of
              None \<Rightarrow> w
            | Some po \<Rightarrow>
                (if loc \<in> snd ` set (po_locations po)
                 then w\<lparr>programs := (programs w)(current_program w \<mapsto>
                        po\<lparr>po_values := (po_values po)(loc \<mapsto> v)\<rparr>)\<rparr>
                 else w)))"

definition glUniform1f :: "int \<Rightarrow> f32 \<Rightarrow> world \<Rightarrow> world" where
  "glUniform1f loc v w = emit (GlUniform1f loc v) (write_uniform loc (Uniform_float v) w)"

definition glUniformMatrix4fv :: "int \<Rightarrow> nat \<Rightarrow> bool \<Rightarrow> mat4 \<Rightarrow> world \<Rightarrow> world" where
  "glUniformMatrix4fv loc n transposed m w =
     emit (GlUniformMatrix4fv loc n transposed m) (write_uniform loc (Uniform_mat4 m) w)"

definition cout :: "string \<Rightarrow> world \<Rightarrow> world" where
  "cout s w = emit (Cout s) w"

definition endl :: string where
  "endl = [CHR 0x0A]"

section \<open>Mesh (Mesh.h, Mesh.cpp)\<close>

record Mesh =
  VAO :: nat
  VBO :: nat
  EBO :: nat
  indexCount :: "32 word"

text \<open>
  \<open>Mesh::setupMesh\<close>.  \<open>indexCount = indices.size()\<close> converts a \<open>size_t\<close> to
  \<open>unsigned int\<close>, which keeps the low 32 bits.  \<open>sizeof(float)\<close> and
  \<open>sizeof(unsigned int)\<close> are 4.
\<close>

definition setupMesh :: "f32 list \<Rightarrow> 32 word list \<Rightarrow> world \<Rightarrow> Mesh \<times> world" where
  "setupMesh vertices indices w =
     (let ic = (of_nat (length indices) :: 32 word);
          (vao, w) = glGenVertexArrays w;
          (vbo, w) = glGenBuffers w;
          (ebo, w) = glGenBuffers w;
          w = glBindVertexArray vao w;
          w = glBindBuffer GL_ARRAY_BUFFER vbo w;
          w = glBufferData GL_ARRAY_BUFFER (length vertices * 4) (Floats vertices) w;
          w = glBindBuffer GL_ELEMENT_ARRAY_BUFFER ebo w;
          w = glBufferData GL_ELEMENT_ARRAY_BUFFER (length indices * 4) (UInts indices) w;
          w = glVertexAttribPointer 0 3 False (3 * 4) 0 w;
          w = glEnableVertexAttribArray 0 w;
          w = glBindBuffer GL_ARRAY_BUFFER 0 w;
          w = glBindVertexArray 0 w
      in (\<lparr>VAO = vao, VBO = vbo, EBO = ebo, indexCount = ic\<rparr>, w))"

text \<open>The constructor \<open>Mesh::Mesh\<close>.\<close>

definition Mesh_new :: "f32 list \<Rightarrow> 32 word list \<Rightarrow> world \<Rightarrow> Mesh \<times> world" where
  "Mesh_new vertices indices w = setupMesh vertices indices w"

text \<open>The destructor \<open>Mesh::~Mesh\<close>.\<close>

definition Mesh_delete :: "Mesh \<Rightarrow> world \<Rightarrow> world" where
  "Mesh_delete m w =
     (let w = glDeleteVertexArrays (VAO m) w;
          w = glDeleteBuffers (VBO m) w;
          w = glDeleteBuffers (EBO m) w
      in w)"

text \<open>\<open>Mesh::draw\<close>; it is \<open>const\<close>, the mesh is only read.\<close>

definition draw :: "Mesh \<Rightarrow> world \<Rightarrow> world" where
  "draw m w =
     (let w = glBindVertexArray (VAO m) w;
          w = glDrawElements (indexCount m) 0 w;
          w = glBindVertexArray 0 w
      in w)"


section \<open>Shader (Shader.h, Shader.cpp)\<close>

record Shader =
  programID :: nat

text \<open>
  \<open>Shader::checkShaderCompileErrors\<close> and \<open>Shader::checkProgramLinkErrors\<close>.  The local
  \<open>success\<close> is read after the query; where the query wrote nothing the read is of an
  uninitialised variable, which is the result \<open>None\<close>.
\<close>

definition checkShaderCompileErrors :: "nat \<Rightarrow> string \<Rightarrow> world \<Rightarrow> world option" where
  "checkShaderCompileErrors shader type w =
     (let (success, w) = glGetShaderiv_COMPILE_STATUS shader w
      in case success of
           None \<Rightarrow> None
         | Some ok \<Rightarrow>
             (if \<not> ok then
                (let (infoLog, w) = glGetShaderInfoLog shader 512 w
                 in case infoLog of
                      None \<Rightarrow> None
                    | Some text \<Rightarrow>
                        Some (cout (''ERROR::SHADER::'' @ type @ ''::COMPILATION_FAILED'' @ endl
                                    @ text @ endl) w))
              else Some w))"

definition checkProgramLinkErrors :: "nat \<Rightarrow> world \<Rightarrow> world option" where
  "checkProgramLinkErrors program w =
     (let (success, w) = glGetProgramiv_LINK_STATUS program w
      in case success of
           None \<Rightarrow> None
         | Some ok \<Rightarrow>
             (if \<not> ok then
                (let (infoLog, w) = glGetProgramInfoLog program 512 w
                 in case infoLog of
                      None \<Rightarrow> None
                    | Some text \<Rightarrow>
                        Some (cout (''ERROR::PROGRAM::LINKING_FAILED'' @ endl @ text @ endl) w))
              else Some w))"

text \<open>The three stages of the constructor \<open>Shader::Shader\<close>, then the constructor.\<close>

definition compile_stage :: "shader_type \<Rightarrow> string \<Rightarrow> string \<Rightarrow> world \<Rightarrow> (nat \<times> world) option" where
  "compile_stage t type source w =
     (let (shader, w) = glCreateShader t w;
          src = c_string source;
          w = glShaderSource shader src w;
          w = glCompileShader shader w
      in case checkShaderCompileErrors shader type w of
           None \<Rightarrow> None
         | Some w \<Rightarrow> Some (shader, w))"

definition link_stage :: "nat \<Rightarrow> nat \<Rightarrow> world \<Rightarrow> (nat \<times> world) option" where
  "link_stage vertexShader fragmentShader w =
     (let (program, w) = glCreateProgram w;
          w = glAttachShader program vertexShader w;
          w = glAttachShader program fragmentShader w;
          w = glLinkProgram program w
      in case checkProgramLinkErrors program w of
           None \<Rightarrow> None
         | Some w \<Rightarrow> Some (program, w))"

definition Shader_new :: "string \<Rightarrow> string \<Rightarrow> world \<Rightarrow> (Shader \<times> world) option" where
  "Shader_new vertexSource fragmentSource w =
     (case compile_stage GL_VERTEX_SHADER ''VERTEX'' vertexSource w of
        None \<Rightarrow> None
      | Some (vertexShader, w) \<Rightarrow>
          (case compile_stage GL_FRAGMENT_SHADER ''FRAGMENT'' fragmentSource w of
             None \<Rightarrow> None
           | Some (fragmentShader, w) \<Rightarrow>
               (case link_stage vertexShader fragmentShader w of
                  None \<Rightarrow> None
                | Some (program, w) \<Rightarrow>
                    (let w = glDeleteShader vertexShader w;
                         w = glDeleteShader fragmentShader w
                     in Some (\<lparr>programID = program\<rparr>, w)))))"

text \<open>The destructor \<open>Shader::~Shader\<close>.\<close>

definition Shader_delete :: "Shader \<Rightarrow> world \<Rightarrow> world" where
  "Shader_delete sh w = glDeleteProgram (programID sh) w"

definition use :: "Shader \<Rightarrow> world \<Rightarrow> world" where
  "use sh w = glUseProgram (programID sh) w"

definition setFloat :: "Shader \<Rightarrow> string \<Rightarrow> f32 \<Rightarrow> world \<Rightarrow> world" where
  "setFloat sh name v w =
     (let (location, w) = glGetUniformLocation (programID sh) (c_string name) w
      in glUniform1f location v w)"

definition setMat4 :: "Shader \<Rightarrow> string \<Rightarrow> mat4 \<Rightarrow> world \<Rightarrow> world" where
  "setMat4 sh name v w =
     (let (location, w) = glGetUniformLocation (programID sh) (c_string name) w
      in glUniformMatrix4fv location 1 False v w)"


section \<open>The application (main.cpp)\<close>

subsection \<open>SDL and GLEW\<close>

text \<open>
  What the platform answers during start-up, and the driver's compiler and linker.
  \<open>SDL_Init\<close> fails with a negative result.
\<close>

record env =
  sdl_init_result :: int
  sdl_error :: string
  window_created :: bool
  context_created :: bool
  glew_ok :: bool
  compiler :: "shader_type \<Rightarrow> string \<Rightarrow> bool \<times> string"
  linker :: "shader_obj list \<Rightarrow> bool \<times> string \<times> (string \<times> int) list"

text \<open>One pass of the main loop sees the events then pending and the keys then held.\<close>

record frame =
  events :: "sdl_event list"
  keys :: "scancode set"

definition initial_world :: "env \<Rightarrow> world" where
  "initial_world env =
     \<lparr>trace = [], vertex_arrays = [], buffers = [], object_names = [],
      shaders = Map.empty, programs = Map.empty,
      vertex_array_binding = 0, array_buffer_binding = 0, current_program = 0,
      glsl_compile = compiler env, glsl_link = linker env,
      sdl_up = False, window_live = False, context_live = False\<rparr>"

definition SDL_Init_VIDEO :: "env \<Rightarrow> world \<Rightarrow> int \<times> world" where
  "SDL_Init_VIDEO env w =
     (let r = sdl_init_result env
      in (r, emit (SDL_Init r) (w\<lparr>sdl_up := \<not> r < 0\<rparr>)))"

definition SDL_GetError_now :: "env \<Rightarrow> world \<Rightarrow> string \<times> world" where
  "SDL_GetError_now env w = (sdl_error env, emit (SDL_GetError (sdl_error env)) w)"

definition SDL_CreateWindow_now :: "env \<Rightarrow> string \<Rightarrow> nat \<Rightarrow> nat \<Rightarrow> world \<Rightarrow> bool \<times> world" where
  "SDL_CreateWindow_now env title width height w =
     (let ok = window_created env
      in (ok, emit (SDL_CreateWindow title width height ok) (w\<lparr>window_live := ok\<rparr>)))"

definition SDL_GL_CreateContext_now :: "env \<Rightarrow> world \<Rightarrow> bool \<times> world" where
  "SDL_GL_CreateContext_now env w =
     (let ok = context_created env
      in (ok, emit (SDL_GL_CreateContext ok) (w\<lparr>context_live := ok\<rparr>)))"

definition glewInit :: "env \<Rightarrow> world \<Rightarrow> bool \<times> world" where
  "glewInit env w = (glew_ok env, emit (GlewInit (glew_ok env)) w)"

text \<open>Destroying the context destroys the objects that live in it.\<close>

definition SDL_GL_DeleteContext_now :: "world \<Rightarrow> world" where
  "SDL_GL_DeleteContext_now w =
     emit SDL_GL_DeleteContext
       (w\<lparr>context_live := False, vertex_arrays := [], buffers := [], object_names := [],
          shaders := Map.empty, programs := Map.empty,
          vertex_array_binding := 0, array_buffer_binding := 0, current_program := 0\<rparr>)"

definition SDL_DestroyWindow_now :: "world \<Rightarrow> world" where
  "SDL_DestroyWindow_now w = emit SDL_DestroyWindow (w\<lparr>window_live := False\<rparr>)"

definition SDL_Quit_now :: "world \<Rightarrow> world" where
  "SDL_Quit_now w = emit SDL_Quit (w\<lparr>sdl_up := False\<rparr>)"

subsection \<open>The data of \<open>main\<close>\<close>

definition vertexShaderSource :: string where
  "vertexShaderSource =
      []
      @ endl @ ''        #version 330 core''
      @ endl @ ''        layout(location = 0) in vec3 aPos; // Vertex position input''
      @ endl @ []
      @ endl @ ''        uniform mat4 mvp; // Rotation angle uniform''
      @ endl @ []
      @ endl @ ''        void main() {''
      @ endl @ ''            gl_Position = mvp * vec4(aPos, 1.0); // Apply transformation''
      @ endl @ ''        }''
      @ endl @ ''    ''"

definition fragmentShaderSource :: string where
  "fragmentShaderSource =
      []
      @ endl @ ''        #version 330 core''
      @ endl @ ''        out vec4 FragColor; // Output fragment color''
      @ endl @ []
      @ endl @ ''        void main() {''
      @ endl @ ''            FragColor = vec4(1.0, 0.5, 0.2, 1.0); // Set constant color (orange)''
      @ endl @ ''        }''
      @ endl @ ''    ''"

definition vertices :: "f32 list" where
  "vertices =
     (let h = f32_lit 1 2; n = f32_lit (- 1) 2
      in [n, n, h,  h, n, h,  h, h, h,  n, h, h,
          n, n, n,  h, n, n,  h, h, n,  n, h, n])"

definition indices :: "32 word list" where
  "indices =
     [0, 1, 2,  2, 3, 0,
      1, 5, 6,  6, 2, 1,
      5, 4, 7,  7, 6, 5,
      4, 0, 3,  3, 7, 4,
      3, 2, 6,  6, 7, 3,
      0, 1, 5,  5, 4, 0]"

text \<open>The local variables of \<open>main\<close> that live across the loop, and the device.\<close>

record main_state =
  dev :: world
  shader :: Shader
  cube :: Mesh
  projection :: mat4
  view :: mat4
  model :: mat4
  cameraX :: f32
  cameraY :: f32
  cameraZ :: f32
  moveSpeed :: f32
  running :: bool
  angle :: f32

subsection \<open>One pass of the loop\<close>

text \<open>\<open>while (SDL_PollEvent(&event))\<close>: the pending events are taken one by one.\<close>

fun poll_events :: "sdl_event list \<Rightarrow> main_state \<Rightarrow> main_state" where
  "poll_events [] s = s\<lparr>dev := emit (SDL_PollEvent None) (dev s)\<rparr>"
| "poll_events (e # es) s =
     (let s = s\<lparr>dev := emit (SDL_PollEvent (Some e)) (dev s)\<rparr>;
          s = (if e = SDL_QUIT then s\<lparr>running := False\<rparr> else s)
      in poll_events es s)"

definition update_camera :: "scancode set \<Rightarrow> main_state \<Rightarrow> main_state" where
  "update_camera keyboardState s =
     (let s = (if SDL_SCANCODE_W \<in> keyboardState
               then s\<lparr>cameraZ := f32_add (cameraZ s) (moveSpeed s)\<rparr> else s);
          s = (if SDL_SCANCODE_S \<in> keyboardState
               then s\<lparr>cameraZ := f32_sub (cameraZ s) (moveSpeed s)\<rparr> else s);
          s = (if SDL_SCANCODE_D \<in> keyboardState
               then s\<lparr>cameraX := f32_add (cameraX s) (moveSpeed s)\<rparr> else s);
          s = (if SDL_SCANCODE_A \<in> keyboardState
               then s\<lparr>cameraX := f32_sub (cameraX s) (moveSpeed s)\<rparr> else s);
          s = (if SDL_SCANCODE_SPACE \<in> keyboardState
               then s\<lparr>cameraY := f32_add (cameraY s) (moveSpeed s)\<rparr> else s);
          s = (if SDL_SCANCODE_LSHIFT \<in> keyboardState
               then s\<lparr>cameraY := f32_sub (cameraY s) (moveSpeed s)\<rparr> else s)
      in s)"

definition angle_step :: f32 where
  "angle_step = f32_lit 25 10000"

definition iteration :: "frame \<Rightarrow> main_state \<Rightarrow> main_state" where
  "iteration f s =
     (let s = poll_events (events f) s;
          s = update_camera (keys f) s;
          s = s\<lparr>model := Rotate Mat4_identity (angle s)
                           (Vec3 (f32_lit 0 1) (f32_lit 1 1) (f32_lit 0 1))\<rparr>;
          mvp = Times (Times (projection s) (view s)) (model s);
          w = dev s;
          w = emit (GlClearColor (f32_lit 2 10) (f32_lit 3 10) (f32_lit 3 10) (f32_lit 1 1)) w;
          w = emit (GlClear [GL_COLOR_BUFFER_BIT, GL_DEPTH_BUFFER_BIT]) w;
          w = use (shader s) w;
          w = setMat4 (shader s) ''mvp'' mvp w;
          w = draw (cube s) w;
          w = emit SDL_GL_SwapWindow w
      in s\<lparr>dev := w, angle := f32_add (angle s) angle_step\<rparr>)"

text \<open>
  \<open>while (running)\<close>, run on the frames given: the state when the loop has ended, or,
  where the frames end first, the state of the loop that is still running.
\<close>

fun run_loop :: "frame list \<Rightarrow> main_state \<Rightarrow> main_state" where
  "run_loop [] s = s"
| "run_loop (f # fs) s = (if running s then run_loop fs (iteration f s) else s)"

subsection \<open>\<open>main\<close>\<close>

text \<open>
  How a run ends: \<open>main\<close> returns a status; or it reads an uninitialised variable; or the
  frames given are used up and the loop is still running.
\<close>

datatype outcome = Exit int world | Undefined_behaviour world | Running_on main_state

text \<open>
  The start-up chain: \<open>Inl\<close> is the early \<open>return 1\<close>.  A diagnostic is one statement
  inserting into \<open>std::cout\<close> a fixed text, the result of \<open>SDL_GetError()\<close> and
  \<open>std::endl\<close>; the insertions are evaluated from left to right (the build asks for
  C++17), so the fixed text is on the console before \<open>SDL_GetError\<close> is called, and the
  message and the end of line follow the call.
\<close>

definition initialise :: "env \<Rightarrow> world \<Rightarrow> (int \<times> world) + world" where
  "initialise env w =
     (let (r, w) = SDL_Init_VIDEO env w
      in if r < 0 then
           (let w = cout ''SDL could not initialize! SDL_Error: '' w;
                (e, w) = SDL_GetError_now env w;
                w = cout (e @ endl) w
            in Inl (1, w))
         else
           (let w = emit (SDL_GL_SetAttribute SDL_GL_CONTEXT_MAJOR_VERSION 3) w;
                w = emit (SDL_GL_SetAttribute SDL_GL_CONTEXT_MINOR_VERSION 3) w;
                w = emit (SDL_GL_SetAttribute SDL_GL_CONTEXT_PROFILE_MASK 1) w;
                (window, w) = SDL_CreateWindow_now env ''Voxel Engine'' 800 600 w
            in if \<not> window then
                 (let w = cout ''Window could not be created! SDL_Error: '' w;
                      (e, w) = SDL_GetError_now env w;
                      w = cout (e @ endl) w;
                      w = SDL_Quit_now w
                  in Inl (1, w))
               else
                 (let (glContext, w) = SDL_GL_CreateContext_now env w
                  in if \<not> glContext then
                       (let w = cout ''OpenGL context could not be created! SDL_Error: '' w;
                            (e, w) = SDL_GetError_now env w;
                            w = cout (e @ endl) w;
                            w = SDL_DestroyWindow_now w;
                            w = SDL_Quit_now w
                        in Inl (1, w))
                     else
                       (let w = emit (Set_glewExperimental True) w;
                            (ok, w) = glewInit env w
                        in if \<not> ok then
                             (let w = cout (''GLEW could not initialize!'' @ endl) w;
                                  w = SDL_GL_DeleteContext_now w;
                                  w = SDL_DestroyWindow_now w;
                                  w = SDL_Quit_now w
                              in Inl (1, w))
                           else Inr w))))"

text \<open>From \<open>glEnable\<close> to the loop's first test: the shader, the cube and the locals.\<close>

definition make_scene :: "world \<Rightarrow> main_state option" where
  "make_scene w =
     (let w = emit GlEnable_DEPTH_TEST w
      in case Shader_new vertexShaderSource fragmentShaderSource w of
           None \<Rightarrow> None
         | Some (sh, w) \<Rightarrow>
             (let (c, w) = Mesh_new vertices indices w;
                  w = emit SDL_GetKeyboardState w
              in Some \<lparr>dev = w, shader = sh, cube = c,
                       projection = Perspective_radians (f32_lit 60 1) (f32_lit 800 1)
                                      (f32_lit 600 1) (f32_lit 1 100) (f32_lit 100 1),
                       view = LookAt (Vec3 (f32_lit 2 1) (f32_lit 2 1) (f32_lit 2 1))
                                (Vec3 (f32_lit 0 1) (f32_lit 0 1) (f32_lit 0 1))
                                (Vec3 (f32_lit 0 1) (f32_lit 1 1) (f32_lit 0 1)),
                       model = Mat4_identity,
                       cameraX = f32_lit 0 1, cameraY = f32_lit 0 1, cameraZ = f32_lit (- 5) 1,
                       moveSpeed = f32_lit 1 100,
                       running = True,
                       angle = f32_lit 0 1\<rparr>))"

text \<open>
  After the loop: the three clean-up calls, \<open>return 0\<close>, and then the destructors of the
  locals in reverse order of construction (\<open>cube\<close>, then \<open>shader\<close>).
\<close>

definition teardown :: "main_state \<Rightarrow> world" where
  "teardown s =
     (let w = dev s;
          w = SDL_GL_DeleteContext_now w;
          w = SDL_DestroyWindow_now w;
          w = SDL_Quit_now w;
          w = Mesh_delete (cube s) w;
          w = Shader_delete (shader s) w
      in w)"

definition main :: "env \<Rightarrow> frame list \<Rightarrow> outcome" where
  "main env frames =
     (case initialise env (initial_world env) of
        Inl (status, w) \<Rightarrow> Exit status w
      | Inr w \<Rightarrow>
          (case make_scene w of
             None \<Rightarrow> Undefined_behaviour w
           | Some s \<Rightarrow>
               (let s = run_loop frames s
                in if running s then Running_on s else Exit 0 (teardown s))))"


section \<open>Vocabulary of the properties\<close>

text \<open>
  A vertex/index pair is well formed when every index is below the number of vertices;
  a vertex takes three floats.
\<close>

definition vertexCount :: "f32 list \<Rightarrow> nat" where
  "vertexCount vs = length vs div 3"

definition well_formed :: "f32 list \<Rightarrow> 32 word list \<Rightarrow> bool" where
  "well_formed vs ixs = (\<forall>i \<in> set ixs. unat i < vertexCount vs)"

text \<open>The calls made between an earlier and a later state of the world.\<close>

definition calls_since :: "world \<Rightarrow> world \<Rightarrow> call list" where
  "calls_since w w' = drop (length (trace w)) (trace w')"

fun is_allocation :: "call \<Rightarrow> bool" where
  "is_allocation (GlGenVertexArrays _) = True"
| "is_allocation (GlGenBuffers _) = True"
| "is_allocation _ = False"

fun is_release :: "call \<Rightarrow> bool" where
  "is_release (GlDeleteVertexArrays _) = True"
| "is_release (GlDeleteBuffers _) = True"
| "is_release _ = False"

text \<open>The vertex arrays and buffers that are allocated and not yet released.\<close>

definition allocation_count :: "world \<Rightarrow> nat" where
  "allocation_count w = length (vertex_arrays w) + length (buffers w)"

text \<open>The calls of one compile stage and of the link stage of \<open>Shader::Shader\<close>, in order.\<close>

definition compile_calls :: "shader_type \<Rightarrow> string \<Rightarrow> nat \<Rightarrow> string \<Rightarrow> bool \<Rightarrow> string \<Rightarrow> call list" where
  "compile_calls t type n src ok info =
     [GlCreateShader t n, GlShaderSource n src, GlCompileShader n,
      GlGetShaderiv_COMPILE_STATUS n ok]
     @ (if ok then []
        else [GlGetShaderInfoLog n 512 (take 511 info),
              Cout (''ERROR::SHADER::'' @ type @ ''::COMPILATION_FAILED'' @ endl
                    @ take 511 info @ endl)])"

definition link_calls :: "nat \<Rightarrow> nat \<Rightarrow> nat \<Rightarrow> bool \<Rightarrow> string \<Rightarrow> call list" where
  "link_calls p v f ok info =
     [GlCreateProgram p, GlAttachShader p v, GlAttachShader p f, GlLinkProgram p,
      GlGetProgramiv_LINK_STATUS p ok]
     @ (if ok then []
        else [GlGetProgramInfoLog p 512 (take 511 info),
              Cout (''ERROR::PROGRAM::LINKING_FAILED'' @ endl @ take 511 info @ endl)])"

text \<open>A platform on which everything succeeds; its linker knows the uniform \<open>mvp\<close>.\<close>

definition demo_env :: env where
  "demo_env =
     \<lparr>sdl_init_result = 0, sdl_error = [], window_created = True, context_created = True,
      glew_ok = True,
      compiler = (\<lambda>t src. (True, [])),
      linker = (\<lambda>objs. (True, [], [(''mvp'', 0)]))\<rparr>"

text \<open>Everything written to the console, and whether a text occurs in another.\<close>

fun cout_text :: "call \<Rightarrow> string" where
  "cout_text (Cout s) = s"
| "cout_text _ = []"

definition console :: "world \<Rightarrow> string" where
  "console w = concat (map cout_text (trace w))"

definition contains_text :: "string \<Rightarrow> string \<Rightarrow> bool" where
  "contains_text s t = (\<exists>i \<in> {0..length s}. take (length t) (drop i s) = t)"

text \<open>
  Platforms whose compiler rejects the vertex stage: with a short log, and with a log of
  600 characters.  A platform whose linker rejects the program.
\<close>

definition failing_env :: env where
  "failing_env = demo_env\<lparr>compiler := (\<lambda>t src. (t \<noteq> GL_VERTEX_SHADER, ''syntax error''))\<rparr>"

definition long_log_env :: env where
  "long_log_env =
     demo_env\<lparr>compiler := (\<lambda>t src. if t = GL_VERTEX_SHADER
                                     then (False, replicate 600 (CHR ''x'')) else (True, []))\<rparr>"

definition link_failing_env :: env where
  "link_failing_env = demo_env\<lparr>linker := (\<lambda>objs. (False, ''no main'', []))\<rparr>"

text \<open>The rotation axis of the cube, \<open>glm::vec3(0.0f, 1.0f, 0.0f)\<close>.\<close>

definition up_axis :: vec3 where
  "up_axis = Vec3 (f32_lit 0 1) (f32_lit 1 1) (f32_lit 0 1)"

text \<open>
  What one pass of the loop does to a camera coordinate: the key of the positive
  direction adds the speed, then the key of the negative direction subtracts it.
\<close>

definition axis_step :: "bool \<Rightarrow> bool \<Rightarrow> f32 \<Rightarrow> f32 \<Rightarrow> f32" where
  "axis_step inc dec v x =
     (let x = (if inc then f32_add x v else x)
      in if dec then f32_sub x v else x)"

text \<open>What one pass of the loop does to the world, given the matrix it uploads.\<close>

definition frame_world :: "sdl_event list \<Rightarrow> Shader \<Rightarrow> Mesh \<Rightarrow> mat4 \<Rightarrow> world \<Rightarrow> world" where
  "frame_world es sh c mvp w =
     emit SDL_GL_SwapWindow
       (draw c
          (setMat4 sh ''mvp'' mvp
             (use sh
                (emit (GlClear [GL_COLOR_BUFFER_BIT, GL_DEPTH_BUFFER_BIT])
                   (emit (GlClearColor (f32_lit 2 10) (f32_lit 3 10) (f32_lit 3 10) (f32_lit 1 1))
                      (w\<lparr>trace := trace w @ map (\<lambda>e. SDL_PollEvent (Some e)) es
                                           @ [SDL_PollEvent None]\<rparr>))))))"

text \<open>A state of \<open>main\<close> with the camera position blotted out.\<close>

definition forget_camera :: "main_state \<Rightarrow> main_state" where
  "forget_camera s = s\<lparr>cameraX := NaN, cameraY := NaN, cameraZ := NaN\<rparr>"

text \<open>
  What a run shows to the outside: the exit status, if it has exited, and the world,
  which holds every call made, every matrix uploaded and every line printed.
\<close>

fun observable :: "outcome \<Rightarrow> int option \<times> world" where
  "observable (Exit status w) = (Some status, w)"
| "observable (Undefined_behaviour w) = (None, w)"
| "observable (Running_on s) = (None, dev s)"

text \<open>The calls to SDL and GLEW, as opposed to OpenGL calls and console output.\<close>

fun is_platform_call :: "call \<Rightarrow> bool" where
  "is_platform_call (SDL_Init _) = True"
| "is_platform_call (SDL_GetError _) = True"
| "is_platform_call (SDL_GL_SetAttribute _ _) = True"
| "is_platform_call (SDL_CreateWindow _ _ _ _) = True"
| "is_platform_call (SDL_GL_CreateContext _) = True"
| "is_platform_call (Set_glewExperimental _) = True"
| "is_platform_call (GlewInit _) = True"
| "is_platform_call SDL_GetKeyboardState = True"
| "is_platform_call (SDL_PollEvent _) = True"
| "is_platform_call SDL_GL_SwapWindow = True"
| "is_platform_call SDL_GL_DeleteContext = True"
| "is_platform_call SDL_DestroyWindow = True"
| "is_platform_call SDL_Quit = True"
| "is_platform_call _ = False"

definition platform_calls :: "world \<Rightarrow> call list" where
  "platform_calls w = filter is_platform_call (trace w)"

definition init_fails :: "env \<Rightarrow> bool" where
  "init_fails env =
     (sdl_init_result env < 0 \<or> \<not> window_created env \<or> \<not> context_created env
      \<or> \<not> glew_ok env)"

text \<open>The calls of a start-up chain in which every step succeeds.\<close>

definition init_calls :: "env \<Rightarrow> call list" where
  "init_calls env =
     [SDL_Init (sdl_init_result env),
      SDL_GL_SetAttribute SDL_GL_CONTEXT_MAJOR_VERSION 3,
      SDL_GL_SetAttribute SDL_GL_CONTEXT_MINOR_VERSION 3,
      SDL_GL_SetAttribute SDL_GL_CONTEXT_PROFILE_MASK 1,
      SDL_CreateWindow ''Voxel Engine'' 800 600 True,
      SDL_GL_CreateContext True,
      Set_glewExperimental True,
      GlewInit True]"

text \<open>
  \<open>accumulate v n x\<close> is \<open>x\<close> after \<open>n\<close> passes of \<open>x += v\<close>.  An addition is exact
  when its operands and its result are finite and the result is the sum of the operands,
  with no rounding.
\<close>

definition accumulate :: "f32 \<Rightarrow> nat \<Rightarrow> f32 \<Rightarrow> f32" where
  "accumulate v n x = ((\<lambda>x. f32_add x v) ^^ n) x"

fun is_finite :: "f32 \<Rightarrow> bool" where
  "is_finite (Finite _ _) = True"
| "is_finite _ = False"

definition adds_exactly :: "f32 \<Rightarrow> f32 \<Rightarrow> bool" where
  "adds_exactly x v =
     (is_finite x \<and> is_finite v \<and> is_finite (f32_add x v)
      \<and> f32_value (f32_add x v) = f32_value x + f32_value v)"

text \<open>
  A binary32 value that is not negative (\<open>+\<infinity>\<close> included), and the comparison \<open>x <= y\<close>
  of C++ on \<open>float\<close>.
\<close>

fun f32_nonneg :: "f32 \<Rightarrow> bool" where
  "f32_nonneg (Finite m e) = (0 \<le> m \<and> m < 2 ^ 24 \<and> - 149 \<le> e \<and> e \<le> 104)"
| "f32_nonneg (Infinity s) = (\<not> s)"
| "f32_nonneg NaN = False"

fun f32_le :: "f32 \<Rightarrow> f32 \<Rightarrow> bool" where
  "f32_le (Finite m1 e1) (Finite m2 e2) = (f32_value (Finite m1 e1) \<le> f32_value (Finite m2 e2))"
| "f32_le NaN _ = False"
| "f32_le _ NaN = False"
| "f32_le (Infinity s) (Infinity t) = (s \<or> \<not> t)"
| "f32_le (Infinity s) (Finite _ _) = s"
| "f32_le (Finite _ _) (Infinity t) = (\<not> t)"

section \<open>Auxiliary facts\<close>

lemma fold_max_start: "b \<le> fold max ys (b::nat)"
  by (induction ys arbitrary: b) (auto intro: order_trans [OF max.cobounded2])

lemma fold_max_ge: "x \<in> set xs \<Longrightarrow> x \<le> fold max xs (a::nat)"
proof (induction xs arbitrary: a)
  case Nil
  then show ?case by simp
next
  case (Cons y ys)
  then show ?case
    by (auto intro: order_trans [OF max.cobounded1 fold_max_start])
qed

lemma fresh_name_fresh: "fresh_name xs \<notin> set xs"
  using fold_max_ge [of "fresh_name xs" xs 0] by (auto simp: fresh_name_def)

lemma fresh_name_nonzero: "fresh_name xs \<noteq> 0"
  by (simp add: fresh_name_def)

lemma fresh_name_distinct:
  "fresh_name (a # xs) \<noteq> a" "fresh_name (a # b # xs) \<noteq> b" "fresh_name (a # b # xs) \<noteq> a"
  using fresh_name_fresh [of "a # xs"] fresh_name_fresh [of "a # b # xs"] by auto

lemma trace_emit [simp]: "trace (emit c w) = trace w @ [c]"
  by (simp add: emit_def)

lemmas mesh_gl_defs = glGenVertexArrays_def glGenBuffers_def glBindVertexArray_def
  glBindBuffer_def glBufferData_def glVertexAttribPointer_def glEnableVertexAttribArray_def
  glDrawElements_def glDeleteVertexArrays_def glDeleteBuffers_def emit_def

lemmas shader_gl_defs = glCreateShader_def glShaderSource_def glCompileShader_def
  glGetShaderiv_COMPILE_STATUS_def glGetShaderInfoLog_def glCreateProgram_def
  glAttachShader_def glLinkProgram_def glGetProgramiv_LINK_STATUS_def
  glGetProgramInfoLog_def glDeleteShader_def cout_def emit_def

section \<open>Rounding never loses ground\<close>

lemma bit_count_0 [simp]: "bit_count 0 = 0"
  by (simp add: bit_count.simps)

lemma bit_count_pos:
  "0 < m \<Longrightarrow> 0 < bit_count m \<and> 2 ^ nat (bit_count m - 1) \<le> m \<and> m < 2 ^ nat (bit_count m)"
proof (induction m rule: bit_count.induct)
  case (1 m)
  let ?h = "\<bar>m\<bar> div 2"
  have bc: "bit_count m = 1 + bit_count ?h"
    using "1.prems" by (subst bit_count.simps) simp
  show ?case
  proof (cases "?h = 0")
    case True
    with "1.prems" have "m = 1" by simp
    with bc True show ?thesis by simp
  next
    case False
    with "1.prems" have hp: "0 < ?h" by simp
    from "1.IH" [OF _ hp] "1.prems"
    have ih: "0 < bit_count ?h" "2 ^ nat (bit_count ?h - 1) \<le> ?h" "?h < 2 ^ nat (bit_count ?h)"
      by auto
    have n: "nat (bit_count ?h) = Suc (nat (bit_count ?h - 1))"
      using ih(1) by simp
    have h2: "2 * ?h \<le> m" "m \<le> 2 * ?h + 1"
      using "1.prems" by simp_all
    have "(2::int) ^ nat (bit_count ?h) = 2 * 2 ^ nat (bit_count ?h - 1)"
      by (simp add: n)
    with ih(2) h2(1) have lo: "(2::int) ^ nat (bit_count ?h) \<le> m"
      by linarith
    have "(2::int) ^ Suc (nat (bit_count ?h)) = 2 * 2 ^ nat (bit_count ?h)"
      by simp
    with ih(3) h2(2) have hi: "m < 2 ^ Suc (nat (bit_count ?h))"
      by linarith
    have "nat (bit_count m - 1) = nat (bit_count ?h)"
      by (simp add: bc)
    moreover have "nat (bit_count m) = Suc (nat (bit_count ?h))"
      using ih(1) by (simp add: bc)
    moreover have "\<bar>m\<bar> = m"
      using "1.prems" by simp
    ultimately show ?thesis
      using lo hi ih(1) bc by simp
  qed
qed

lemma round_shift_0 [simp]: "round_shift m 0 = m"
  by (simp add: round_shift_def)

lemma round_shift_bounds:
  "m div 2 ^ k \<le> round_shift m k \<and> round_shift m k \<le> m div 2 ^ k + 1"
  by (simp add: round_shift_def Let_def)


lemma le_div_pow2:
  fixes a b :: int
  assumes "a * 2 ^ k \<le> b"
  shows "a \<le> b div 2 ^ k"
proof -
  have "a = (a * 2 ^ k) div 2 ^ k" by simp
  also have "\<dots> \<le> b div 2 ^ k"
    using assms by (intro zdiv_mono1) simp_all
  finally show ?thesis .
qed

lemma div_pow2_less:
  fixes m a :: int
  assumes "m < a * 2 ^ k"
  shows "m div 2 ^ k < a"
proof (rule ccontr)
  assume "\<not> m div 2 ^ k < a"
  then have "a * 2 ^ k \<le> (m div 2 ^ k) * 2 ^ k"
    by (intro mult_right_mono) simp_all
  moreover have "(m div 2 ^ k) * 2 ^ k + m mod 2 ^ k = m"
    by (rule div_mult_mod_eq)
  moreover have "0 \<le> m mod (2::int) ^ k"
    by simp
  ultimately show False
    using assms by linarith
qed

lemma round_shift_ge:
  assumes "0 \<le> m1" and "m1 < 2 ^ 24" and "m1 * 2 ^ d \<le> M"
  shows "m1 * 2 ^ d \<le> round_shift M (nat (max 0 (bit_count M - 24)))
                         * 2 ^ nat (max 0 (bit_count M - 24))"
proof (cases "bit_count M \<le> 24")
  case True
  then have "nat (max 0 (bit_count M - 24)) = 0" by simp
  with assms(3) show ?thesis by simp
next
  case False
  define k where "k = nat (bit_count M - 24)"
  from False have k: "nat (max 0 (bit_count M - 24)) = k" and kpos: "0 < k"
    by (simp_all add: k_def)
  have Mnn: "0 \<le> M"
    using assms(1,3) by (meson mult_nonneg_nonneg order_trans zero_le_numeral zero_le_power)
  from False have "M \<noteq> 0" by auto
  with Mnn have Mpos: "0 < M" by simp
  have "nat (bit_count M - 1) = 23 + k"
    using False by (simp add: k_def)
  with bit_count_pos [OF Mpos] have lo: "2 ^ (23 + k) \<le> M"
    by simp
  let ?q = "round_shift M k"
  have qge: "M div 2 ^ k \<le> ?q"
    using round_shift_bounds [of M k] by simp
  have "m1 * 2 ^ d \<le> ?q * 2 ^ k"
  proof (cases "k \<le> d")
    case True
    then have eq: "m1 * 2 ^ d = (m1 * 2 ^ (d - k)) * 2 ^ k"
      by (simp add: power_add [symmetric])
    with assms(3) have "(m1 * 2 ^ (d - k)) * 2 ^ k \<le> M"
      by (simp only:)
    then have "m1 * 2 ^ (d - k) \<le> M div 2 ^ k"
      by (rule le_div_pow2)
    with qge have "m1 * 2 ^ (d - k) \<le> ?q" by simp
    then have "(m1 * 2 ^ (d - k)) * 2 ^ k \<le> ?q * 2 ^ k"
      by (intro mult_right_mono) simp_all
    then show ?thesis by (simp only: eq)
  next
    case False
    then have dk: "24 + d \<le> 23 + k" by simp
    have "m1 * 2 ^ d < 2 ^ 24 * 2 ^ d"
      using assms(2) by (intro mult_strict_right_mono) simp_all
    also have "\<dots> = (2::int) ^ (24 + d)"
      by (simp add: power_add)
    also have "\<dots> \<le> 2 ^ (23 + k)"
      using dk by (intro power_increasing) simp_all
    finally have a: "m1 * 2 ^ d < 2 ^ (23 + k)" .
    have "(2::int) ^ 23 * 2 ^ k \<le> M"
      using lo by (simp add: power_add)
    then have "(2::int) ^ 23 \<le> M div 2 ^ k"
      by (rule le_div_pow2)
    with qge have "(2::int) ^ 23 \<le> ?q" by simp
    then have c: "(2::int) ^ 23 * 2 ^ k \<le> ?q * 2 ^ k"
      by (intro mult_right_mono) simp_all
    have "(2::int) ^ (23 + k) = 2 ^ 23 * 2 ^ k"
      by (simp add: power_add)
    with a have "m1 * 2 ^ d < 2 ^ 23 * 2 ^ k"
      by (simp only:)
    with c show ?thesis
      by linarith
  qed
  with k show ?thesis by simp
qed

lemma pow_shift:
  "(of_int (q * 2 ^ j) :: real) * 2 powi (x - int j) = of_int q * 2 powi x"
proof -
  have "(2::real) ^ j * 2 powi (x - int j) = 2 powi (int j) * 2 powi (x - int j)"
    by simp
  also have "\<dots> = 2 powi x"
    using power_int_add [of "2::real" "int j" "x - int j"] by simp
  finally have "(2::real) ^ j * 2 powi (x - int j) = 2 powi x" .
  then have "of_int q * ((2::real) ^ j * 2 powi (x - int j)) = of_int q * 2 powi x"
    by (simp only:)
  then show ?thesis
    by (simp add: mult.assoc)
qed


lemma f32_value_powi: "f32_value (Finite m e) = of_int m * 2 powi e"
  by (simp add: power_int_def field_simps)

lemma f32_round_nonneg:
  assumes "0 \<le> m" and "- 149 \<le> e"
  shows "f32_round m e = Infinity False
       \<or> (\<exists>m' e'. f32_round m e = Finite m' e' \<and> 0 \<le> m' \<and> m' < 2 ^ 24
             \<and> - 149 \<le> e' \<and> e' \<le> 104
             \<and> (of_int m' :: real) * 2 powi e'
                 = of_int (round_shift m (nat (max 0 (bit_count m - 24)))
                           * 2 ^ nat (max 0 (bit_count m - 24))) * 2 powi e)"
proof -
  define k where "k = nat (max 0 (bit_count m - 24))"
  define q where "q = round_shift m k"
  define e1 where "e1 = e + int k"
  define j where "j = nat (max 0 (min (24 - bit_count q) (e1 + 149)))"
  define q2 where "q2 = q * 2 ^ j"
  define e2 where "e2 = e1 - int j"
  have kk: "max 0 (max (bit_count m - 24) (- 149 - e)) = int k"
    using assms(2) by (simp add: k_def max_def)
  have q0: "0 \<le> q"
  proof -
    have "0 \<le> m div 2 ^ k"
      using assms(1) by (simp add: pos_imp_zdiv_nonneg_iff)
    with round_shift_bounds [of m k] show ?thesis
      by (simp add: q_def)
  qed
  have qle: "q \<le> 2 ^ 24"
  proof (cases "m = 0")
    case True
    then show ?thesis by (simp add: q_def k_def)
  next
    case False
    with assms(1) have mp: "0 < m" by simp
    note b = bit_count_pos [OF mp]
    show ?thesis
    proof (cases "bit_count m \<le> 24")
      case True
      then have k0: "k = 0" by (simp add: k_def)
      from True have "nat (bit_count m) \<le> 24" by simp
      then have "(2::int) ^ nat (bit_count m) \<le> 2 ^ 24"
        by (intro power_increasing) simp_all
      with b show ?thesis by (simp add: q_def k0)
    next
      case False
      then have "nat (bit_count m) = 24 + k" by (simp add: k_def)
      with b have "m < 2 ^ 24 * 2 ^ k" by (simp add: power_add)
      then have "m div 2 ^ k < 2 ^ 24"
        by (rule div_pow2_less)
      with round_shift_bounds [of m k] show ?thesis
        by (simp add: q_def)
    qed
  qed
  have e1lo: "- 149 \<le> e1"
    using assms(2) by (simp add: e1_def)
  have e2lo: "- 149 \<le> e2"
    using e1lo by (simp add: e2_def j_def)
  have q2nn: "0 \<le> q2"
    using q0 by (simp add: q2_def)
  have val: "(of_int q2 :: real) * 2 powi e2 = of_int (q * 2 ^ k) * 2 powi e"
  proof -
    have "(of_int q2 :: real) * 2 powi e2 = of_int q * 2 powi e1"
      unfolding q2_def e2_def by (rule pow_shift)
    also have "\<dots> = of_int (q * 2 ^ k) * 2 powi (e1 - int k)"
      by (rule pow_shift [symmetric])
    also have "e1 - int k = e"
      by (simp add: e1_def)
    finally show ?thesis .
  qed
  have small: "q2 < 2 ^ 24" if qp: "0 < q" and ne: "q2 \<noteq> 2 ^ 24"
  proof (cases "bit_count q < 24")
    case True
    note b = bit_count_pos [OF qp]
    from True b have "j \<le> nat (24 - bit_count q)"
      by (simp add: j_def)
    with True b have "nat (bit_count q) + j \<le> 24" by linarith
    then have le: "(2::int) ^ (nat (bit_count q) + j) \<le> 2 ^ 24"
      by (intro power_increasing) simp_all
    from b have "q * 2 ^ j < 2 ^ nat (bit_count q) * 2 ^ j"
      by (intro mult_strict_right_mono) simp_all
    also have "\<dots> = (2::int) ^ (nat (bit_count q) + j)"
      by (simp add: power_add)
    finally show ?thesis
      using le by (simp add: q2_def)
  next
    case False
    then have "j = 0" by (simp add: j_def)
    with qle ne show ?thesis by (simp add: q2_def)
  qed
  have unfold: "f32_round m e =
     (if q = 0 then Finite 0 (- 149)
      else if \<bar>q2\<bar> = 2 ^ 24 then
           (if 104 \<le> e2 then Infinity (q < 0) else Finite (q2 div 2) (e2 + 1))
         else if 104 < e2 then Infinity (q < 0)
         else Finite q2 e2)"
    unfolding f32_round_def Let_def kk q_def e1_def j_def q2_def e2_def
    by (simp only: nat_int int_nat_eq max.cobounded1 if_True)
  show ?thesis
  proof (cases "q = 0")
    case True
    then show ?thesis
      using unfold by (simp add: q_def k_def)
  next
    case False
    with q0 have qp: "0 < q" by simp
    then have nneg: "\<not> q < 0" by simp
    show ?thesis
    proof (cases "q2 = 2 ^ 24")
      case True
      show ?thesis
      proof (cases "104 \<le> e2")
        case True
        with \<open>q2 = 2 ^ 24\<close> False nneg unfold show ?thesis by simp
      next
        case False
        have "(of_int (q2 div 2) :: real) * 2 powi (e2 + 1) = of_int q2 * 2 powi e2"
          using True by (simp add: power_int_add)
        with val have "(of_int (q2 div 2) :: real) * 2 powi (e2 + 1)
                        = of_int (q * 2 ^ k) * 2 powi e"
          by simp
        with True False \<open>q \<noteq> 0\<close> unfold e2lo show ?thesis
          by (simp add: q_def k_def)
      qed
    next
      case False
      with q2nn have na: "\<bar>q2\<bar> \<noteq> 2 ^ 24" by simp
      show ?thesis
      proof (cases "104 < e2")
        case True
        with na \<open>q \<noteq> 0\<close> nneg unfold show ?thesis by simp
      next
        case False
        with na \<open>q \<noteq> 0\<close> unfold have r: "f32_round m e = Finite q2 e2" by simp
        from small [OF qp \<open>q2 \<noteq> 2 ^ 24\<close>] q2nn e2lo False val r show ?thesis
          by (simp add: q_def k_def)
      qed
    qed
  qed
qed


lemma f32_add_finite_ge:
  assumes "0 \<le> m1" and "m1 < 2 ^ 24" and "- 149 \<le> e1" and "0 \<le> m2" and "- 149 \<le> e2"
  shows "f32_add (Finite m1 e1) (Finite m2 e2) = Infinity False
       \<or> (\<exists>m e. f32_add (Finite m1 e1) (Finite m2 e2) = Finite m e
             \<and> 0 \<le> m \<and> m < 2 ^ 24 \<and> - 149 \<le> e \<and> e \<le> 104
             \<and> f32_value (Finite m1 e1) \<le> f32_value (Finite m e))"
proof -
  define e where "e = min e1 e2"
  define d where "d = nat (e1 - e)"
  define M where "M = m1 * 2 ^ d + m2 * 2 ^ nat (e2 - e)"
  let ?Q = "round_shift M (nat (max 0 (bit_count M - 24))) * 2 ^ nat (max 0 (bit_count M - 24))"
  have add: "f32_add (Finite m1 e1) (Finite m2 e2) = f32_round M e"
    by (simp add: f32_add.simps Let_def e_def d_def M_def)
  have elo: "- 149 \<le> e"
    using assms(3,5) by (simp add: e_def)
  have le: "m1 * 2 ^ d \<le> M"
    using assms(4) by (simp add: M_def)
  have Mnn: "0 \<le> M"
    using assms(1,4) by (simp add: M_def)
  have ge: "m1 * 2 ^ d \<le> ?Q"
    by (rule round_shift_ge [OF assms(1,2) le])
  have "e1 - int d = e"
    by (simp add: d_def e_def)
  with pow_shift [of m1 d e1]
  have x: "f32_value (Finite m1 e1) = of_int (m1 * 2 ^ d) * 2 powi e"
    by (simp only: f32_value_powi)
  have "(of_int (m1 * 2 ^ d) :: real) \<le> of_int ?Q"
    using ge by (simp only: of_int_le_iff)
  then have "(of_int (m1 * 2 ^ d) :: real) * 2 powi e \<le> of_int ?Q * 2 powi e"
    by (intro mult_right_mono) simp_all
  with x have xle: "f32_value (Finite m1 e1) \<le> of_int ?Q * 2 powi e"
    by (simp only:)
  from f32_round_nonneg [OF Mnn elo] show ?thesis
  proof
    assume "f32_round M e = Infinity False"
    then show ?thesis by (simp add: add)
  next
    assume "\<exists>m' e'. f32_round M e = Finite m' e' \<and> 0 \<le> m' \<and> m' < 2 ^ 24
             \<and> - 149 \<le> e' \<and> e' \<le> 104
             \<and> (of_int m' :: real) * 2 powi e' = of_int ?Q * 2 powi e"
    then obtain m' e' where r: "f32_round M e = Finite m' e'"
      and b: "0 \<le> m'" "m' < 2 ^ 24" "- 149 \<le> e'" "e' \<le> 104"
      and v: "(of_int m' :: real) * 2 powi e' = of_int ?Q * 2 powi e"
      by blast
    from xle v have "f32_value (Finite m1 e1) \<le> f32_value (Finite m' e')"
      by (simp only: f32_value_powi)
    with r b show ?thesis
      by (simp only: add) blast
  qed
qed

lemma f32_add_nonneg:
  assumes "f32_nonneg x" and "f32_nonneg c"
  shows "f32_nonneg (f32_add x c) \<and> f32_le x (f32_add x c)"
proof (cases x)
  case (Finite m1 e1)
  show ?thesis
  proof (cases c)
    case (Finite m2 e2)
    from assms \<open>x = Finite m1 e1\<close> Finite
    have "f32_add (Finite m1 e1) (Finite m2 e2) = Infinity False
       \<or> (\<exists>m e. f32_add (Finite m1 e1) (Finite m2 e2) = Finite m e
             \<and> 0 \<le> m \<and> m < 2 ^ 24 \<and> - 149 \<le> e \<and> e \<le> 104
             \<and> f32_value (Finite m1 e1) \<le> f32_value (Finite m e))"
      by (intro f32_add_finite_ge) simp_all
    then show ?thesis
      unfolding \<open>x = Finite m1 e1\<close> Finite
      by (elim disjE exE conjE) (simp_all del: f32_value.simps)
  next
    case (Infinity t)
    with assms \<open>x = Finite m1 e1\<close> show ?thesis by (simp add: f32_add.simps)
  next
    case NaN
    with assms show ?thesis by simp
  qed
next
  case (Infinity s)
  with assms show ?thesis by (cases c) (simp_all add: f32_add.simps)
next
  case NaN
  with assms show ?thesis by simp
qed

section \<open>Mesh: allocation and release, drawing\<close>

text \<open>
  Claim C4.  For a well-formed vertex/index pair, constructing a \<open>Mesh\<close> and then
  destroying it allocates each of the three GPU resources exactly once and releases each
  exactly once: the constructor makes the three allocations (one vertex array, then the
  vertex buffer, then the index buffer) and no release, the destructor makes the three
  releases of those same names and no allocation.  The names are fresh, so afterwards the
  live vertex arrays and buffers are those from before the construction and the count of
  allocations is what it was, zero if it was zero.
\<close>

theorem mesh_lifecycle:
  assumes "well_formed vs ixs"
    and "Mesh_new vs ixs w = (m, w1)"
    and "w2 = Mesh_delete m w1"
  shows "filter is_allocation (calls_since w w1)
           = [GlGenVertexArrays (VAO m), GlGenBuffers (VBO m), GlGenBuffers (EBO m)]
       \<and> filter is_release (calls_since w w1) = []
       \<and> filter is_release (calls_since w1 w2)
           = [GlDeleteVertexArrays (VAO m), GlDeleteBuffers (VBO m), GlDeleteBuffers (EBO m)]
       \<and> filter is_allocation (calls_since w1 w2) = []
       \<and> VAO m \<notin> set (vertex_arrays w) \<and> vertex_arrays w1 = VAO m # vertex_arrays w
       \<and> VBO m \<notin> set (buffers w) \<and> EBO m \<notin> set (buffers w) \<and> VBO m \<noteq> EBO m
       \<and> buffers w1 = EBO m # VBO m # buffers w
       \<and> vertex_arrays w2 = vertex_arrays w \<and> buffers w2 = buffers w
       \<and> allocation_count w2 = allocation_count w"
  using assms(2,3) fresh_name_fresh [of "vertex_arrays w"] fresh_name_fresh [of "buffers w"]
    fresh_name_fresh [of "fresh_name (buffers w) # buffers w"]
  by (auto simp: Mesh_new_def setupMesh_def Mesh_delete_def mesh_gl_defs calls_since_def
      allocation_count_def Let_def)

theorem mesh_lifecycle_witness:
  "well_formed vertices indices
   \<and> allocation_count
        (Mesh_delete (fst (Mesh_new vertices indices (initial_world demo_env)))
           (snd (Mesh_new vertices indices (initial_world demo_env)))) = 0"
proof -
  have wf: "well_formed vertices indices"
    by (simp add: well_formed_def vertices_def indices_def vertexCount_def Let_def)
  have "allocation_count (initial_world demo_env) = 0"
    by (simp add: allocation_count_def initial_world_def)
  with wf mesh_lifecycle [OF wf prod.collapse [symmetric] refl, of "initial_world demo_env"]
  show ?thesis by simp
qed

lemma indexCount_Mesh_new:
  "indexCount (fst (Mesh_new vs ixs w)) = of_nat (length ixs)"
  by (simp add: Mesh_new_def setupMesh_def Let_def split_def)

text \<open>
  Claim C9.  \<open>draw\<close> makes three calls: it binds the mesh's vertex array, issues one
  indexed draw of triangles with the stored index count, and binds vertex array 0.  Apart
  from the record of these calls the only change to the device is that no vertex array is
  bound afterwards.  The stored count is the length of the index list the mesh was built
  from, read as \<open>unsigned int\<close> and as the \<open>GLsizei\<close> that \<open>glDrawElements\<close>
  takes.  \<open>draw\<close> returns the device only; the mesh is an argument it reads.  The bound on
  the length holds for every \<open>std::vector<unsigned int>\<close> of the 32-bit x86 target the
  build scripts name: four bytes an element in an address space of \<open>2 ^ 32\<close> bytes.
\<close>

theorem draw_one_indexed_call:
  assumes "Mesh_new vs ixs w0 = (m, w1)" and "length ixs < 2 ^ 31"
  shows "draw m w =
           w\<lparr>trace := trace w @ [GlBindVertexArray (VAO m),
                                 GlDrawElements_TRIANGLES_UNSIGNED_INT (indexCount m) 0,
                                 GlBindVertexArray 0],
             vertex_array_binding := 0\<rparr>
       \<and> vertex_array_binding (draw m w) = 0
       \<and> unat (indexCount m) = length ixs
       \<and> sint (indexCount m) = int (length ixs)"
proof -
  have ic: "indexCount m = of_nat (length ixs)"
    using indexCount_Mesh_new [of vs ixs w0] assms(1) by simp
  have u: "unat (indexCount m) = length ixs"
    using assms(2) by (simp add: ic unat_of_nat)
  have "sint (indexCount m) = signed_take_bit 31 (int (length ixs))"
    by (simp add: ic signed_of_nat)
  also have "\<dots> = int (length ixs)"
    using assms(2) by (intro signed_take_bit_int_eq_self) auto
  finally have s: "sint (indexCount m) = int (length ixs)" .
  have d: "draw m w =
           w\<lparr>trace := trace w @ [GlBindVertexArray (VAO m),
                                 GlDrawElements_TRIANGLES_UNSIGNED_INT (indexCount m) 0,
                                 GlBindVertexArray 0],
             vertex_array_binding := 0\<rparr>"
    by (simp add: draw_def glBindVertexArray_def glDrawElements_def emit_def Let_def)
  show ?thesis using u s d by simp
qed

theorem draw_one_indexed_call_witness:
  "length indices < 2 ^ 31
   \<and> unat (indexCount (fst (Mesh_new vertices indices (initial_world demo_env)))) = 36
   \<and> vertex_array_binding
        (draw (fst (Mesh_new vertices indices (initial_world demo_env)))
           (snd (Mesh_new vertices indices (initial_world demo_env)))) = 0"
proof -
  have len: "length indices < 2 ^ 31" by (simp add: indices_def)
  from draw_one_indexed_call [OF prod.collapse [symmetric] len]
  show ?thesis using len by (simp add: indices_def)
qed

section \<open>Shader: construction and uniforms\<close>

lemma compile_stage_eq:
  assumes "glsl_compile w t (c_string src) = (ok, info)"
  shows "compile_stage t type src w =
           Some (fresh_name (object_names w),
                 w\<lparr>trace := trace w @ compile_calls t type (fresh_name (object_names w))
                                       (c_string src) ok info,
                   object_names := fresh_name (object_names w) # object_names w,
                   shaders := (shaders w)(fresh_name (object_names w) \<mapsto>
                     \<lparr>so_type = t, so_source = c_string src, so_compiled = ok, so_log = info,
                      so_delete_pending = False\<rparr>)\<rparr>)"
  using assms
  by (cases ok)
     (simp_all add: compile_stage_def checkShaderCompileErrors_def shader_gl_defs
        compile_calls_def Let_def)


lemma link_stage_eq:
  assumes "shaders w v = Some sv" and "shaders w f = Some sf" and "v \<noteq> f"
    and "glsl_link w [sv, sf] = (ok, info, locs)"
  shows "link_stage v f w =
           Some (fresh_name (object_names w),
                 w\<lparr>trace := trace w @ link_calls (fresh_name (object_names w)) v f ok info,
                   object_names := fresh_name (object_names w) # object_names w,
                   programs := (programs w)(fresh_name (object_names w) \<mapsto>
                     \<lparr>po_attached = [v, f], po_linked = ok, po_log = info,
                      po_locations = (if ok then locs else []),
                      po_values = Map.empty, po_delete_pending = False\<rparr>)\<rparr>)"
  using assms
  by (cases ok)
     (simp_all add: link_stage_def checkProgramLinkErrors_def shader_gl_defs
        link_calls_def Let_def List.map_filter_simps)


lemma Shader_new_eq:
  fixes w vs fs
  defines "v \<equiv> fresh_name (object_names w)"
  defines "f \<equiv> fresh_name (v # object_names w)"
  defines "p \<equiv> fresh_name (f # v # object_names w)"
  assumes cv: "glsl_compile w GL_VERTEX_SHADER (c_string vs) = (okv, infov)"
    and cf: "glsl_compile w GL_FRAGMENT_SHADER (c_string fs) = (okf, infof)"
    and l: "glsl_link w
              [\<lparr>so_type = GL_VERTEX_SHADER, so_source = c_string vs, so_compiled = okv,
                so_log = infov, so_delete_pending = False\<rparr>,
               \<lparr>so_type = GL_FRAGMENT_SHADER, so_source = c_string fs, so_compiled = okf,
                so_log = infof, so_delete_pending = False\<rparr>] = (okl, infol, locs)"
  shows "Shader_new vs fs w =
           Some (\<lparr>programID = p\<rparr>,
                 w\<lparr>trace := trace w @ compile_calls GL_VERTEX_SHADER ''VERTEX'' v (c_string vs) okv infov
                                   @ compile_calls GL_FRAGMENT_SHADER ''FRAGMENT'' f (c_string fs) okf infof
                                   @ link_calls p v f okl infol
                                   @ [GlDeleteShader v, GlDeleteShader f],
                   object_names := p # f # v # object_names w,
                   shaders := (shaders w)
                     (v \<mapsto> \<lparr>so_type = GL_VERTEX_SHADER, so_source = c_string vs,
                           so_compiled = okv, so_log = infov, so_delete_pending = True\<rparr>,
                      f \<mapsto> \<lparr>so_type = GL_FRAGMENT_SHADER, so_source = c_string fs,
                           so_compiled = okf, so_log = infof, so_delete_pending = True\<rparr>),
                   programs := (programs w)(p \<mapsto>
                     \<lparr>po_attached = [v, f], po_linked = okl, po_log = infol,
                      po_locations = (if okl then locs else []),
                      po_values = Map.empty, po_delete_pending = False\<rparr>)\<rparr>)"
proof -
  let ?sv = "\<lparr>so_type = GL_VERTEX_SHADER, so_source = c_string vs, so_compiled = okv,
              so_log = infov, so_delete_pending = False\<rparr>"
  let ?sf = "\<lparr>so_type = GL_FRAGMENT_SHADER, so_source = c_string fs, so_compiled = okf,
              so_log = infof, so_delete_pending = False\<rparr>"
  have ne: "f \<noteq> v" "p \<noteq> v" "p \<noteq> f"
    unfolding v_def f_def p_def by (rule fresh_name_distinct)+
  define w1 where "w1 = w\<lparr>trace := trace w @ compile_calls GL_VERTEX_SHADER ''VERTEX'' v (c_string vs) okv infov,
                   object_names := v # object_names w,
                   shaders := (shaders w)(v \<mapsto> ?sv)\<rparr>"
  have s1: "compile_stage GL_VERTEX_SHADER ''VERTEX'' vs w = Some (v, w1)"
    using compile_stage_eq [OF cv] by (simp add: w1_def v_def)
  have cf1: "glsl_compile w1 GL_FRAGMENT_SHADER (c_string fs) = (okf, infof)"
    using cf by (simp add: w1_def)
  define w2 where "w2 = w1\<lparr>trace := trace w1 @ compile_calls GL_FRAGMENT_SHADER ''FRAGMENT'' f (c_string fs) okf infof,
                   object_names := f # object_names w1,
                   shaders := (shaders w1)(f \<mapsto> ?sf)\<rparr>"
  have on1: "object_names w1 = v # object_names w" by (simp add: w1_def)
  have s2: "compile_stage GL_FRAGMENT_SHADER ''FRAGMENT'' fs w1 = Some (f, w2)"
    using compile_stage_eq [OF cf1] by (simp add: w2_def f_def on1)
  have on2: "object_names w2 = f # v # object_names w" by (simp add: w2_def on1)
  have sh2: "shaders w2 v = Some ?sv" "shaders w2 f = Some ?sf"
    using ne by (simp_all add: w2_def w1_def)
  have l2: "glsl_link w2 [?sv, ?sf] = (okl, infol, locs)"
    using l by (simp add: w2_def w1_def)
  define w3 where "w3 = w2\<lparr>trace := trace w2 @ link_calls p v f okl infol,
                   object_names := p # object_names w2,
                   programs := (programs w2)(p \<mapsto>
                     \<lparr>po_attached = [v, f], po_linked = okl, po_log = infol,
                      po_locations = (if okl then locs else []),
                      po_values = Map.empty, po_delete_pending = False\<rparr>)\<rparr>"
  have s3: "link_stage v f w2 = Some (p, w3)"
    using link_stage_eq [OF sh2 ne(1) [symmetric] l2] by (simp add: w3_def p_def on2)
  have "Shader_new vs fs w = Some (\<lparr>programID = p\<rparr>, glDeleteShader f (glDeleteShader v w3))"
    by (simp add: Shader_new_def s1 s2 s3)
  also have "glDeleteShader f (glDeleteShader v w3) =
                 w\<lparr>trace := trace w @ compile_calls GL_VERTEX_SHADER ''VERTEX'' v (c_string vs) okv infov
                                   @ compile_calls GL_FRAGMENT_SHADER ''FRAGMENT'' f (c_string fs) okf infof
                                   @ link_calls p v f okl infol
                                   @ [GlDeleteShader v, GlDeleteShader f],
                   object_names := p # f # v # object_names w,
                   shaders := (shaders w)
                     (v \<mapsto> ?sv\<lparr>so_delete_pending := True\<rparr>,
                      f \<mapsto> ?sf\<lparr>so_delete_pending := True\<rparr>),
                   programs := (programs w)(p \<mapsto>
                     \<lparr>po_attached = [v, f], po_linked = okl, po_log = infol,
                      po_locations = (if okl then locs else []),
                      po_values = Map.empty, po_delete_pending = False\<rparr>)\<rparr>"
    using ne
    by (simp add: w3_def w2_def w1_def glDeleteShader_def attached_somewhere_def emit_def
        fun_upd_twist)
  finally show ?thesis by simp
qed

lemma Shader_new_total:
  obtains okv infov okf infof okl infol locs where
    "glsl_compile w GL_VERTEX_SHADER (c_string vs) = (okv, infov)"
    "glsl_compile w GL_FRAGMENT_SHADER (c_string fs) = (okf, infof)"
    "glsl_link w
              [\<lparr>so_type = GL_VERTEX_SHADER, so_source = c_string vs, so_compiled = okv,
                so_log = infov, so_delete_pending = False\<rparr>,
               \<lparr>so_type = GL_FRAGMENT_SHADER, so_source = c_string fs, so_compiled = okf,
                so_log = infof, so_delete_pending = False\<rparr>] = (okl, infol, locs)"
  by (metis prod.exhaust)

lemma glsl_compile_initial [simp]: "glsl_compile (initial_world e) = compiler e"
  by (simp add: initial_world_def)

lemma glsl_link_initial [simp]: "glsl_link (initial_world e) = linker e"
  by (simp add: initial_world_def)

lemma trace_initial [simp]: "trace (initial_world e) = []"
  by (simp add: initial_world_def)

lemma c_string_Nil [simp]: "c_string [] = []"
  by (simp add: c_string_def)

lemma contains_text_length: "contains_text s t \<Longrightarrow> length t \<le> length s"
proof -
  assume "contains_text s t"
  then obtain i where "take (length t) (drop i s) = t"
    by (auto simp: contains_text_def)
  then have "length (take (length t) (drop i s)) = length t"
    by (rule arg_cong)
  then show ?thesis by simp
qed

text \<open>
  Claim C5, as amended.  Construction of a \<open>Shader\<close> always completes and returns the
  object.  For each stage that fails to compile the constructor writes one diagnostic to
  the console: the stage's name (\<open>VERTEX\<close> or \<open>FRAGMENT\<close>) in the line
  \<open>ERROR::SHADER::<stage>::COMPILATION_FAILED\<close>, then the first 511 characters of the
  compiler's log (the whole log when it is shorter than 512 characters), then a newline.
\<close>

theorem shader_compile_failure_reported:
  "\<exists>sh w'. Shader_new vs fs w = Some (sh, w')
     \<and> (\<forall>info. glsl_compile w GL_VERTEX_SHADER (c_string vs) = (False, info) \<longrightarrow>
           Cout (''ERROR::SHADER::VERTEX::COMPILATION_FAILED'' @ endl @ take 511 info @ endl)
             \<in> set (calls_since w w'))
     \<and> (\<forall>info. glsl_compile w GL_FRAGMENT_SHADER (c_string fs) = (False, info) \<longrightarrow>
           Cout (''ERROR::SHADER::FRAGMENT::COMPILATION_FAILED'' @ endl @ take 511 info @ endl)
             \<in> set (calls_since w w'))"
proof -
  obtain okv infov okf infof okl infol locs where
    c: "glsl_compile w GL_VERTEX_SHADER (c_string vs) = (okv, infov)"
    "glsl_compile w GL_FRAGMENT_SHADER (c_string fs) = (okf, infof)"
    "glsl_link w
              [\<lparr>so_type = GL_VERTEX_SHADER, so_source = c_string vs, so_compiled = okv,
                so_log = infov, so_delete_pending = False\<rparr>,
               \<lparr>so_type = GL_FRAGMENT_SHADER, so_source = c_string fs, so_compiled = okf,
                so_log = infof, so_delete_pending = False\<rparr>] = (okl, infol, locs)"
    by (rule Shader_new_total)
  show ?thesis
    using c(1,2)
    by (simp add: Shader_new_eq [OF c] calls_since_def compile_calls_def)
qed

theorem shader_compile_failure_reported_witness:
  "glsl_compile (initial_world failing_env) GL_VERTEX_SHADER (c_string []) = (False, ''syntax error'')
   \<and> Cout (''ERROR::SHADER::VERTEX::COMPILATION_FAILED'' @ endl @ ''syntax error'' @ endl)
       \<in> set (trace (snd (the (Shader_new [] [] (initial_world failing_env)))))"
proof -
  have c: "glsl_compile (initial_world failing_env) GL_VERTEX_SHADER (c_string [])
             = (False, ''syntax error'')"
    by (simp add: failing_env_def)
  from shader_compile_failure_reported [of "[]" "[]" "initial_world failing_env"]
  obtain sh w' where
    "Shader_new [] [] (initial_world failing_env) = Some (sh, w')"
    "Cout (''ERROR::SHADER::VERTEX::COMPILATION_FAILED'' @ endl @ take 511 ''syntax error'' @ endl)
       \<in> set (calls_since (initial_world failing_env) w')"
    using c by blast
  then show ?thesis using c by (simp add: calls_since_def)
qed

text \<open>
  The claim as it stands asks for the compiler's log in the diagnostic.  With a vertex
  stage whose log has 600 characters the console holds the heading and 511 of them, and
  the log does not occur in it: \<open>infoLog\<close> is a buffer of 512 characters.
\<close>

theorem shader_log_truncated_counterexample:
  "glsl_compile (initial_world long_log_env) GL_VERTEX_SHADER (c_string [])
     = (False, replicate 600 (CHR ''x''))
   \<and> console (snd (the (Shader_new [] [] (initial_world long_log_env))))
     = ''ERROR::SHADER::VERTEX::COMPILATION_FAILED'' @ endl @ replicate 511 (CHR ''x'') @ endl
   \<and> \<not> contains_text (console (snd (the (Shader_new [] [] (initial_world long_log_env)))))
         (replicate 600 (CHR ''x''))"
proof -
  have c: "glsl_compile (initial_world long_log_env) GL_VERTEX_SHADER (c_string [])
             = (False, replicate 600 (CHR ''x''))"
    "glsl_compile (initial_world long_log_env) GL_FRAGMENT_SHADER (c_string []) = (True, [])"
    by (simp_all add: long_log_env_def)
  have l: "glsl_link (initial_world long_log_env)
              [\<lparr>so_type = GL_VERTEX_SHADER, so_source = c_string [], so_compiled = False,
                so_log = replicate 600 (CHR ''x''), so_delete_pending = False\<rparr>,
               \<lparr>so_type = GL_FRAGMENT_SHADER, so_source = c_string [], so_compiled = True,
                so_log = [], so_delete_pending = False\<rparr>] = (True, [], [(''mvp'', 0)])"
    by (simp add: long_log_env_def demo_env_def)
  have t: "console (snd (the (Shader_new [] [] (initial_world long_log_env))))
     = ''ERROR::SHADER::VERTEX::COMPILATION_FAILED'' @ endl @ replicate 511 (CHR ''x'') @ endl"
    by (simp add: Shader_new_eq [OF c l] console_def compile_calls_def link_calls_def)
  have "\<not> contains_text (console (snd (the (Shader_new [] [] (initial_world long_log_env)))))
         (replicate 600 (CHR ''x''))"
  proof
    assume "contains_text (console (snd (the (Shader_new [] [] (initial_world long_log_env)))))
         (replicate 600 (CHR ''x''))"
    from contains_text_length [OF this] show False
      by (simp add: t endl_def)
  qed
  with c(1) t show ?thesis by simp
qed

text \<open>
  Claim C6.  When both stages compile and the program fails to link, construction still
  completes and returns the \<open>Shader\<close> (the result carries no error value).  The
  constructor writes the diagnostic \<open>ERROR::PROGRAM::LINKING_FAILED\<close> with the linker's
  log to the console, and the stored \<open>programID\<close> is the name that \<open>glCreateProgram\<close>
  returned during this construction; it is not 0 and names the program object, which is
  not linked.
\<close>

theorem shader_link_failure_reported:
  assumes "glsl_compile w GL_VERTEX_SHADER (c_string vs) = (True, infov)"
    and "glsl_compile w GL_FRAGMENT_SHADER (c_string fs) = (True, infof)"
    and "glsl_link w
              [\<lparr>so_type = GL_VERTEX_SHADER, so_source = c_string vs, so_compiled = True,
                so_log = infov, so_delete_pending = False\<rparr>,
               \<lparr>so_type = GL_FRAGMENT_SHADER, so_source = c_string fs, so_compiled = True,
                so_log = infof, so_delete_pending = False\<rparr>] = (False, infol, locs)"
  shows "\<exists>sh w' po. Shader_new vs fs w = Some (sh, w')
           \<and> programID sh \<noteq> 0
           \<and> GlCreateProgram (programID sh) \<in> set (calls_since w w')
           \<and> Cout (''ERROR::PROGRAM::LINKING_FAILED'' @ endl @ take 511 infol @ endl)
               \<in> set (calls_since w w')
           \<and> programs w' (programID sh) = Some po \<and> \<not> po_linked po"
  by (simp add: Shader_new_eq [OF assms] calls_since_def link_calls_def fresh_name_def)

theorem shader_link_failure_reported_witness:
  "programID (fst (the (Shader_new [] [] (initial_world link_failing_env)))) \<noteq> 0
   \<and> Cout (''ERROR::PROGRAM::LINKING_FAILED'' @ endl @ ''no main'' @ endl)
       \<in> set (trace (snd (the (Shader_new [] [] (initial_world link_failing_env)))))"
proof -
  have c: "glsl_compile (initial_world link_failing_env) GL_VERTEX_SHADER (c_string []) = (True, [])"
    "glsl_compile (initial_world link_failing_env) GL_FRAGMENT_SHADER (c_string []) = (True, [])"
    by (simp_all add: link_failing_env_def demo_env_def)
  have l: "glsl_link (initial_world link_failing_env)
              [\<lparr>so_type = GL_VERTEX_SHADER, so_source = c_string [], so_compiled = True,
                so_log = [], so_delete_pending = False\<rparr>,
               \<lparr>so_type = GL_FRAGMENT_SHADER, so_source = c_string [], so_compiled = True,
                so_log = [], so_delete_pending = False\<rparr>] = (False, ''no main'', [])"
    by (simp add: link_failing_env_def)
  from shader_link_failure_reported [OF c l]
  show ?thesis by (auto simp: calls_since_def)
qed

text \<open>
  Claim C7.  For a name that is no active uniform of the linked program, \<open>setFloat\<close> and
  \<open>setMat4\<close> look the name up, get the location \<open>-1\<close>, and pass it to the write call,
  which ignores it: the world afterwards is the world before with the two calls added to
  the record of calls.  Both return the world only; there is no error result.
\<close>

theorem absent_uniform_is_ignored:
  assumes "programs w (programID sh) = Some po" and "po_linked po"
    and "map_of (po_locations po) (c_string name) = None"
  shows "setFloat sh name x w =
           w\<lparr>trace := trace w @ [GlGetUniformLocation (programID sh) (c_string name) (- 1),
                                 GlUniform1f (- 1) x]\<rparr>
       \<and> setMat4 sh name m w =
           w\<lparr>trace := trace w @ [GlGetUniformLocation (programID sh) (c_string name) (- 1),
                                 GlUniformMatrix4fv (- 1) 1 False m]\<rparr>"
  using assms
  by (simp add: setFloat_def setMat4_def glGetUniformLocation_def glUniform1f_def
      glUniformMatrix4fv_def write_uniform_def emit_def Let_def)

theorem absent_uniform_is_ignored_witness:
  "map_of [(''mvp'', 0 :: int)] (c_string ''colour'') = None
   \<and> setFloat \<lparr>programID = 3\<rparr> ''colour'' (f32_lit 1 1)
        (snd (the (Shader_new [] [] (initial_world demo_env))))
     = (snd (the (Shader_new [] [] (initial_world demo_env))))
         \<lparr>trace := trace (snd (the (Shader_new [] [] (initial_world demo_env))))
                    @ [GlGetUniformLocation 3 ''colour'' (- 1), GlUniform1f (- 1) (f32_lit 1 1)]\<rparr>"
proof -
  let ?w = "snd (the (Shader_new [] [] (initial_world demo_env)))"
  let ?po = "\<lparr>po_attached = [1, 2], po_linked = True, po_log = [],
              po_locations = [(''mvp'', 0)], po_values = Map.empty,
              po_delete_pending = False\<rparr>"
  have c: "glsl_compile (initial_world demo_env) GL_VERTEX_SHADER (c_string []) = (True, [])"
    "glsl_compile (initial_world demo_env) GL_FRAGMENT_SHADER (c_string []) = (True, [])"
    by (simp_all add: demo_env_def)
  have l: "glsl_link (initial_world demo_env)
              [\<lparr>so_type = GL_VERTEX_SHADER, so_source = c_string [], so_compiled = True,
                so_log = [], so_delete_pending = False\<rparr>,
               \<lparr>so_type = GL_FRAGMENT_SHADER, so_source = c_string [], so_compiled = True,
                so_log = [], so_delete_pending = False\<rparr>] = (True, [], [(''mvp'', 0)])"
    by (simp add: demo_env_def)
  have on: "object_names (initial_world demo_env) = []"
    by (simp add: initial_world_def)
  have p: "programs ?w (programID \<lparr>programID = 3\<rparr>) = Some ?po"
    by (simp add: Shader_new_eq [OF c l] on fresh_name_def)
  have n: "c_string ''colour'' = ''colour''"
    by (simp add: c_string_def)
  have m: "map_of (po_locations ?po) (c_string ''colour'') = None"
    by (simp add: n)
  from absent_uniform_is_ignored [OF p _ m, of "f32_lit 1 1"] n
  show ?thesis by simp
qed

section \<open>The main loop\<close>

lemma poll_events_eq:
  "poll_events es s =
     s\<lparr>dev := (dev s)\<lparr>trace := trace (dev s) @ map (\<lambda>e. SDL_PollEvent (Some e)) es
                                  @ [SDL_PollEvent None]\<rparr>,
       running := running s \<and> SDL_QUIT \<notin> set es\<rparr>"
proof (induction es arbitrary: s)
  case Nil
  show ?case by (simp add: emit_def)
next
  case (Cons e es)
  show ?case by (simp add: Cons.IH emit_def Let_def)
qed

lemma trace_fold_keep:
  assumes "\<And>x w. trace (g x w) = trace w"
  shows "trace (fold g xs w) = trace w"
  by (induction xs arbitrary: w) (simp_all add: assms)

lemma trace_release_program [simp]: "trace (release_program p w) = trace w"
  unfolding release_program_def
  by (cases "programs w p")
     (simp_all add: trace_fold_keep remove_shader_def split: option.splits)

lemma trace_use: "trace (use sh w) = trace w @ [GlUseProgram (programID sh)]"
  by (simp add: use_def glUseProgram_def Let_def split: option.splits)

lemma trace_setMat4:
  "trace (setMat4 sh name m w) =
     trace w @ [GlGetUniformLocation (programID sh) (c_string name)
                  (fst (glGetUniformLocation (programID sh) (c_string name) w)),
                GlUniformMatrix4fv (fst (glGetUniformLocation (programID sh) (c_string name) w))
                  1 False m]"
  by (simp add: setMat4_def glGetUniformLocation_def glUniformMatrix4fv_def write_uniform_def
      Let_def split: option.splits)

lemma trace_draw:
  "trace (draw m w) =
     trace w @ [GlBindVertexArray (VAO m),
                GlDrawElements_TRIANGLES_UNSIGNED_INT (indexCount m) 0, GlBindVertexArray 0]"
  by (simp add: draw_def glBindVertexArray_def glDrawElements_def Let_def)


lemma update_camera_eq:
  "update_camera ks s =
     s\<lparr>cameraX := axis_step (SDL_SCANCODE_D \<in> ks) (SDL_SCANCODE_A \<in> ks) (moveSpeed s) (cameraX s),
       cameraY := axis_step (SDL_SCANCODE_SPACE \<in> ks) (SDL_SCANCODE_LSHIFT \<in> ks) (moveSpeed s) (cameraY s),
       cameraZ := axis_step (SDL_SCANCODE_W \<in> ks) (SDL_SCANCODE_S \<in> ks) (moveSpeed s) (cameraZ s)\<rparr>"
  by (simp add: update_camera_def axis_step_def Let_def)

lemma iteration_eq:
  "iteration f s =
     s\<lparr>dev := frame_world (events f) (shader s) (cube s)
                (Times (Times (projection s) (view s)) (Rotate Mat4_identity (angle s) up_axis))
                (dev s),
       model := Rotate Mat4_identity (angle s) up_axis,
       cameraX := axis_step (SDL_SCANCODE_D \<in> keys f) (SDL_SCANCODE_A \<in> keys f)
                    (moveSpeed s) (cameraX s),
       cameraY := axis_step (SDL_SCANCODE_SPACE \<in> keys f) (SDL_SCANCODE_LSHIFT \<in> keys f)
                    (moveSpeed s) (cameraY s),
       cameraZ := axis_step (SDL_SCANCODE_W \<in> keys f) (SDL_SCANCODE_S \<in> keys f)
                    (moveSpeed s) (cameraZ s),
       running := running s \<and> SDL_QUIT \<notin> set (events f),
       angle := f32_add (angle s) angle_step\<rparr>"
  by (simp add: iteration_def poll_events_eq update_camera_eq frame_world_def up_axis_def
      Let_def)


lemma trace_frame_world:
  "\<exists>loc. trace (frame_world es sh c mvp w) =
     trace w @ map (\<lambda>e. SDL_PollEvent (Some e)) es
     @ [SDL_PollEvent None,
        GlClearColor (f32_lit 2 10) (f32_lit 3 10) (f32_lit 3 10) (f32_lit 1 1),
        GlClear [GL_COLOR_BUFFER_BIT, GL_DEPTH_BUFFER_BIT],
        GlUseProgram (programID sh),
        GlGetUniformLocation (programID sh) ''mvp'' loc,
        GlUniformMatrix4fv loc 1 False mvp,
        GlBindVertexArray (VAO c),
        GlDrawElements_TRIANGLES_UNSIGNED_INT (indexCount c) 0,
        GlBindVertexArray 0,
        SDL_GL_SwapWindow]"
proof -
  have n: "c_string ''mvp'' = ''mvp''"
    by (simp add: c_string_def)
  show ?thesis
    by (simp add: frame_world_def trace_draw trace_setMat4 trace_use n)
qed

lemma forget_iteration:
  "forget_camera (iteration f s) =
     (forget_camera s)
       \<lparr>dev := frame_world (events f) (shader (forget_camera s)) (cube (forget_camera s))
                (Times (Times (projection (forget_camera s)) (view (forget_camera s)))
                   (Rotate Mat4_identity (angle (forget_camera s)) up_axis))
                (dev (forget_camera s)),
        model := Rotate Mat4_identity (angle (forget_camera s)) up_axis,
        running := running (forget_camera s) \<and> SDL_QUIT \<notin> set (events f),
        angle := f32_add (angle (forget_camera s)) angle_step\<rparr>"
  by (simp add: iteration_eq forget_camera_def)

lemma forget_iteration_cong:
  assumes "events f = events f'" and "forget_camera s = forget_camera s'"
  shows "forget_camera (iteration f s) = forget_camera (iteration f' s')"
  by (simp only: forget_iteration assms)

lemma running_forget [simp]: "running (forget_camera s) = running s"
  by (simp add: forget_camera_def)

lemma forget_run_loop:
  assumes "map events fs = map events fs'" and "forget_camera s = forget_camera s'"
  shows "forget_camera (run_loop fs s) = forget_camera (run_loop fs' s')"
  using assms
proof (induction fs arbitrary: fs' s s')
  case Nil
  then show ?case by simp
next
  case (Cons f fs)
  from Cons.prems(1) obtain f' fs'' where fs': "fs' = f' # fs''"
    and ev: "events f = events f'" and rest: "map events fs = map events fs''"
    by (cases fs') auto
  have r: "running s = running s'"
    using Cons.prems(2) by (metis running_forget)
  show ?case
  proof (cases "running s")
    case True
    with r have "running s'" by simp
    with True show ?thesis
      using Cons.IH [OF rest forget_iteration_cong [OF ev Cons.prems(2)]]
      by (simp add: fs')
  next
    case False
    with r have "\<not> running s'" by simp
    with False show ?thesis
      using Cons.prems(2) by (simp add: fs')
  qed
qed

section \<open>Start-up, the scene and shutdown\<close>

lemmas sdl_defs = SDL_Init_VIDEO_def SDL_GetError_now_def SDL_CreateWindow_now_def
  SDL_GL_CreateContext_now_def glewInit_def SDL_GL_DeleteContext_now_def
  SDL_DestroyWindow_now_def SDL_Quit_now_def cout_def emit_def

lemma initialise_ok:
  assumes "\<not> init_fails env"
  shows "initialise env (initial_world env) =
           Inr ((initial_world env)\<lparr>trace := init_calls env, sdl_up := True,
                                    window_live := True, context_live := True\<rparr>)"
  using assms
  by (simp add: initialise_def init_fails_def sdl_defs init_calls_def initial_world_def Let_def)

lemma initialise_sdl_fails:
  assumes "sdl_init_result env < 0"
  shows "initialise env (initial_world env) =
           Inl (1, (initial_world env)\<lparr>trace :=
                  [SDL_Init (sdl_init_result env),
                   Cout ''SDL could not initialize! SDL_Error: '',
                   SDL_GetError (sdl_error env),
                   Cout (sdl_error env @ endl)]\<rparr>)"
  using assms
  by (simp add: initialise_def sdl_defs initial_world_def Let_def)

lemma initialise_window_fails:
  assumes "\<not> sdl_init_result env < 0" and "\<not> window_created env"
  shows "initialise env (initial_world env) =
           Inl (1, (initial_world env)\<lparr>trace :=
                  [SDL_Init (sdl_init_result env),
                   SDL_GL_SetAttribute SDL_GL_CONTEXT_MAJOR_VERSION 3,
                   SDL_GL_SetAttribute SDL_GL_CONTEXT_MINOR_VERSION 3,
                   SDL_GL_SetAttribute SDL_GL_CONTEXT_PROFILE_MASK 1,
                   SDL_CreateWindow ''Voxel Engine'' 800 600 False,
                   Cout ''Window could not be created! SDL_Error: '',
                   SDL_GetError (sdl_error env),
                   Cout (sdl_error env @ endl),
                   SDL_Quit]\<rparr>)"
  using assms
  by (simp add: initialise_def sdl_defs initial_world_def Let_def)

lemma initialise_context_fails:
  assumes "\<not> sdl_init_result env < 0" and "window_created env" and "\<not> context_created env"
  shows "initialise env (initial_world env) =
           Inl (1, (initial_world env)\<lparr>trace :=
                  [SDL_Init (sdl_init_result env),
                   SDL_GL_SetAttribute SDL_GL_CONTEXT_MAJOR_VERSION 3,
                   SDL_GL_SetAttribute SDL_GL_CONTEXT_MINOR_VERSION 3,
                   SDL_GL_SetAttribute SDL_GL_CONTEXT_PROFILE_MASK 1,
                   SDL_CreateWindow ''Voxel Engine'' 800 600 True,
                   SDL_GL_CreateContext False,
                   Cout ''OpenGL context could not be created! SDL_Error: '',
                   SDL_GetError (sdl_error env),
                   Cout (sdl_error env @ endl),
                   SDL_DestroyWindow,
                   SDL_Quit]\<rparr>)"
  using assms
  by (simp add: initialise_def sdl_defs initial_world_def Let_def)

lemma initialise_glew_fails:
  assumes "\<not> sdl_init_result env < 0" and "window_created env" and "context_created env"
    and "\<not> glew_ok env"
  shows "initialise env (initial_world env) =
           Inl (1, (initial_world env)\<lparr>trace :=
                  [SDL_Init (sdl_init_result env),
                   SDL_GL_SetAttribute SDL_GL_CONTEXT_MAJOR_VERSION 3,
                   SDL_GL_SetAttribute SDL_GL_CONTEXT_MINOR_VERSION 3,
                   SDL_GL_SetAttribute SDL_GL_CONTEXT_PROFILE_MASK 1,
                   SDL_CreateWindow ''Voxel Engine'' 800 600 True,
                   SDL_GL_CreateContext True,
                   Set_glewExperimental True,
                   GlewInit False,
                   Cout (''GLEW could not initialize!'' @ endl),
                   SDL_GL_DeleteContext,
                   SDL_DestroyWindow,
                   SDL_Quit]\<rparr>)"
  using assms
  by (simp add: initialise_def sdl_defs initial_world_def Let_def)

lemma Shader_new_platform:
  "\<exists>sh w'. Shader_new vs fs w = Some (sh, w') \<and> platform_calls w' = platform_calls w"
proof -
  obtain okv infov okf infof okl infol locs where
    c: "glsl_compile w GL_VERTEX_SHADER (c_string vs) = (okv, infov)"
    "glsl_compile w GL_FRAGMENT_SHADER (c_string fs) = (okf, infof)"
    "glsl_link w
              [\<lparr>so_type = GL_VERTEX_SHADER, so_source = c_string vs, so_compiled = okv,
                so_log = infov, so_delete_pending = False\<rparr>,
               \<lparr>so_type = GL_FRAGMENT_SHADER, so_source = c_string fs, so_compiled = okf,
                so_log = infof, so_delete_pending = False\<rparr>] = (okl, infol, locs)"
    by (rule Shader_new_total)
  show ?thesis
    by (simp add: Shader_new_eq [OF c] platform_calls_def compile_calls_def link_calls_def)
qed

lemma Mesh_new_platform:
  "platform_calls (snd (Mesh_new vs ixs w)) = platform_calls w"
  by (simp add: Mesh_new_def setupMesh_def mesh_gl_defs platform_calls_def Let_def split_def)

lemma make_scene_Some:
  "\<exists>s. make_scene w = Some s
       \<and> platform_calls (dev s) = platform_calls w @ [SDL_GetKeyboardState]
       \<and> running s
       \<and> cameraX s = f32_lit 0 1 \<and> cameraY s = f32_lit 0 1 \<and> cameraZ s = f32_lit (- 5) 1
       \<and> moveSpeed s = f32_lit 1 100 \<and> angle s = f32_lit 0 1"
proof -
  from Shader_new_platform [of vertexShaderSource fragmentShaderSource "emit GlEnable_DEPTH_TEST w"]
  obtain sh w' where
    sn: "Shader_new vertexShaderSource fragmentShaderSource (emit GlEnable_DEPTH_TEST w) = Some (sh, w')"
    and pc: "platform_calls w' = platform_calls (emit GlEnable_DEPTH_TEST w)"
    by blast
  have "platform_calls (emit GlEnable_DEPTH_TEST w) = platform_calls w"
    by (simp add: platform_calls_def)
  with pc Mesh_new_platform [of vertices indices w']
  show ?thesis
    by (simp add: make_scene_def sn Let_def split_def platform_calls_def)
qed

lemma platform_frame_world:
  "platform_calls (frame_world es sh c mvp w) =
     platform_calls w @ map (\<lambda>e. SDL_PollEvent (Some e)) es @ [SDL_PollEvent None, SDL_GL_SwapWindow]"
proof -
  have "filter is_platform_call (map (\<lambda>e. SDL_PollEvent (Some e)) es)
          = map (\<lambda>e. SDL_PollEvent (Some e)) es"
    by (induction es) simp_all
  with trace_frame_world [of es sh c mvp w] show ?thesis
    by (auto simp: platform_calls_def)
qed

lemma teardown_eq:
  "teardown s =
     (dev s)\<lparr>trace := trace (dev s) @
                [SDL_GL_DeleteContext, SDL_DestroyWindow, SDL_Quit,
                 GlDeleteVertexArrays (VAO (cube s)), GlDeleteBuffers (VBO (cube s)),
                 GlDeleteBuffers (EBO (cube s)), GlDeleteProgram (programID (shader s))],
             vertex_arrays := [], buffers := [], object_names := [],
             shaders := Map.empty, programs := Map.empty,
             vertex_array_binding := 0, array_buffer_binding := 0, current_program := 0,
             sdl_up := False, window_live := False, context_live := False\<rparr>"
  by (simp add: teardown_def Mesh_delete_def Shader_delete_def glDeleteProgram_def
      glDeleteVertexArrays_def glDeleteBuffers_def sdl_defs Let_def)


lemma run_loop_stopped: "\<not> running s \<Longrightarrow> run_loop fs s = s"
  by (cases fs) simp_all

lemma run_loop_quits:
  assumes "\<exists>f \<in> set fs. SDL_QUIT \<in> set (events f)"
  shows "\<not> running (run_loop fs s)"
  using assms
proof (induction fs arbitrary: s)
  case Nil
  then show ?case by simp
next
  case (Cons f fs)
  show ?case
  proof (cases "running s")
    case False
    then show ?thesis by simp
  next
    case True
    show ?thesis
    proof (cases "SDL_QUIT \<in> set (events f)")
      case True
      then have nr: "\<not> running (iteration f s)" by (simp add: iteration_eq)
      from \<open>running s\<close> have "run_loop (f # fs) s = iteration f s"
        by (simp add: run_loop_stopped [OF nr])
      with nr show ?thesis by simp
    next
      case False
      with Cons.prems have "\<exists>f \<in> set fs. SDL_QUIT \<in> set (events f)" by simp
      from Cons.IH [OF this, of "iteration f s"] \<open>running s\<close> show ?thesis by simp
    qed
  qed
qed

lemma main_ok:
  assumes "\<not> init_fails env"
  shows "\<exists>s0. (\<forall>fs. main env fs =
                  (if running (run_loop fs s0) then Running_on (run_loop fs s0)
                   else Exit 0 (teardown (run_loop fs s0))))
            \<and> platform_calls (dev s0) = init_calls env @ [SDL_GetKeyboardState]
            \<and> running s0
            \<and> cameraX s0 = f32_lit 0 1 \<and> cameraY s0 = f32_lit 0 1
            \<and> cameraZ s0 = f32_lit (- 5) 1
            \<and> moveSpeed s0 = f32_lit 1 100 \<and> angle s0 = f32_lit 0 1"
proof -
  let ?w = "(initial_world env)\<lparr>trace := init_calls env, sdl_up := True,
                                    window_live := True, context_live := True\<rparr>"
  from make_scene_Some [of ?w] obtain s0 where
    ms: "make_scene ?w = Some s0"
    and rest: "platform_calls (dev s0) = platform_calls ?w @ [SDL_GetKeyboardState]"
      "running s0" "cameraX s0 = f32_lit 0 1" "cameraY s0 = f32_lit 0 1"
      "cameraZ s0 = f32_lit (- 5) 1" "moveSpeed s0 = f32_lit 1 100" "angle s0 = f32_lit 0 1"
    by blast
  have pc: "platform_calls ?w = init_calls env"
    by (simp add: platform_calls_def init_calls_def)
  have "\<forall>fs. main env fs =
                  (if running (run_loop fs s0) then Running_on (run_loop fs s0)
                   else Exit 0 (teardown (run_loop fs s0)))"
    by (simp add: main_def initialise_ok [OF assms] ms Let_def)
  with rest pc show ?thesis by auto
qed

lemma teardown_forget: "teardown (forget_camera s) = teardown s"
  by (simp add: teardown_eq forget_camera_def)

lemma dev_forget: "dev (forget_camera s) = dev s"
  by (simp add: forget_camera_def)

lemma run_loop_keeps_view:
  "view (run_loop fs s) = view s \<and> projection (run_loop fs s) = projection s"
  by (induction fs arbitrary: s) (simp_all add: iteration_eq)

lemma demo_env_ok: "\<not> init_fails demo_env"
  by (simp add: init_fails_def demo_env_def)

section \<open>The camera\<close>

lemma run_loop_fold:
  assumes "running s" and "\<forall>f \<in> set (butlast fs). SDL_QUIT \<notin> set (events f)"
  shows "run_loop fs s = fold iteration fs s"
  using assms
proof (induction fs arbitrary: s)
  case Nil
  then show ?case by simp
next
  case (Cons f fs)
  show ?case
  proof (cases fs)
    case Nil
    with Cons.prems show ?thesis by simp
  next
    case (Cons g gs)
    with Cons.prems have nq: "SDL_QUIT \<notin> set (events f)"
      and rest: "\<forall>h \<in> set (butlast fs). SDL_QUIT \<notin> set (events h)"
      by auto
    from nq Cons.prems(1) have "running (iteration f s)"
      by (simp add: iteration_eq)
    from Cons.IH [OF this rest] Cons.prems(1) show ?thesis by simp
  qed
qed

lemma fold_iteration_camera:
  "cameraX (fold iteration fs s) =
     fold (\<lambda>f. axis_step (SDL_SCANCODE_D \<in> keys f) (SDL_SCANCODE_A \<in> keys f) (moveSpeed s))
       fs (cameraX s)
   \<and> cameraY (fold iteration fs s) =
     fold (\<lambda>f. axis_step (SDL_SCANCODE_SPACE \<in> keys f) (SDL_SCANCODE_LSHIFT \<in> keys f) (moveSpeed s))
       fs (cameraY s)
   \<and> cameraZ (fold iteration fs s) =
     fold (\<lambda>f. axis_step (SDL_SCANCODE_W \<in> keys f) (SDL_SCANCODE_S \<in> keys f) (moveSpeed s))
       fs (cameraZ s)
   \<and> moveSpeed (fold iteration fs s) = moveSpeed s"
  by (induction fs arbitrary: s) (simp_all add: iteration_eq)

lemma fold_held:
  assumes "\<forall>f \<in> set fs. inc f \<and> \<not> dec f"
  shows "fold (\<lambda>f. axis_step (inc f) (dec f) v) fs x = accumulate v (length fs) x"
  using assms
proof (induction fs arbitrary: x)
  case Nil
  show ?case by (simp add: accumulate_def)
next
  case (Cons f fs)
  from Cons.prems have step: "axis_step (inc f) (dec f) v x = f32_add x v"
    by (simp add: axis_step_def)
  from Cons.prems have "\<forall>f \<in> set fs. inc f \<and> \<not> dec f"
    by simp
  from Cons.IH [OF this]
  have "fold (\<lambda>f. axis_step (inc f) (dec f) v) (f # fs) x
               = accumulate v (length fs) (f32_add x v)"
    by (simp add: step)
  also have "\<dots> = accumulate v (length (f # fs)) x"
    unfolding accumulate_def by (simp del: funpow.simps add: funpow_Suc_right)
  finally show ?case .
qed

lemma accumulate_exact:
  assumes "\<forall>k < n. adds_exactly (accumulate v k x) v"
  shows "f32_value (accumulate v n x) = f32_value x + real n * f32_value v"
  using assms
proof (induction n)
  case 0
  show ?case by (simp add: accumulate_def)
next
  case (Suc n)
  then have ih: "f32_value (accumulate v n x) = f32_value x + real n * f32_value v"
    by simp
  from Suc.prems have "adds_exactly (accumulate v n x) v" by simp
  then have "f32_value (f32_add (accumulate v n x) v)
               = f32_value (accumulate v n x) + f32_value v"
    by (simp add: adds_exactly_def)
  with ih show ?case
    by (simp add: accumulate_def algebra_simps)
qed

lemma running_fold_iteration:
  assumes "running s" and "\<forall>f \<in> set fs. SDL_QUIT \<notin> set (events f)"
  shows "running (fold iteration fs s)"
  using assms by (induction fs arbitrary: s) (simp_all add: iteration_eq)

lemma main_running:
  assumes "\<not> init_fails env"
  shows "\<exists>s0. (\<forall>fs. (\<forall>f \<in> set fs. SDL_QUIT \<notin> set (events f)) \<longrightarrow>
                    main env fs = Running_on (run_loop fs s0))
            \<and> running s0
            \<and> cameraX s0 = f32_lit 0 1 \<and> cameraY s0 = f32_lit 0 1
            \<and> cameraZ s0 = f32_lit (- 5) 1
            \<and> moveSpeed s0 = f32_lit 1 100 \<and> angle s0 = f32_lit 0 1"
proof -
  from main_ok [OF assms] obtain s0 where
    m: "\<And>fs. main env fs =
                  (if running (run_loop fs s0) then Running_on (run_loop fs s0)
                   else Exit 0 (teardown (run_loop fs s0)))"
    and r: "running s0"
    and rest: "cameraX s0 = f32_lit 0 1" "cameraY s0 = f32_lit 0 1"
      "cameraZ s0 = f32_lit (- 5) 1" "moveSpeed s0 = f32_lit 1 100" "angle s0 = f32_lit 0 1"
    by blast
  have "main env fs = Running_on (run_loop fs s0)"
    if nq: "\<forall>f \<in> set fs. SDL_QUIT \<notin> set (events f)" for fs
  proof -
    from nq have "\<forall>f \<in> set (butlast fs). SDL_QUIT \<notin> set (events f)"
      by (meson in_set_butlastD)
    from run_loop_fold [OF r this] running_fold_iteration [OF r nq]
    have "running (run_loop fs s0)" by simp
    then show ?thesis by (simp add: m)
  qed
  with r rest show ?thesis by blast
qed

lemma lit_values:
  "f32_lit 0 1 = Finite 0 (- 149)"
  "f32_lit 1 100 = Finite 10737418 (- 30)"
  "f32_lit 25 10000 = Finite 10737418 (- 32)"
  by code_simp+

lemma accumulate_simps:
  "accumulate v 0 x = x"
  "accumulate v (Suc n) x = f32_add (accumulate v n x) v"
  by (simp_all add: accumulate_def)

lemma speed_chain:
  "f32_add (Finite 0 (- 149)) (Finite 10737418 (- 30)) = Finite 10737418 (- 30)"
  "f32_add (Finite 10737418 (- 30)) (Finite 10737418 (- 30)) = Finite 10737418 (- 29)"
  "f32_add (Finite 10737418 (- 29)) (Finite 10737418 (- 30)) = Finite 16106127 (- 29)"
  "f32_add (Finite 16106127 (- 29)) (Finite 10737418 (- 30)) = Finite 10737418 (- 28)"
  "f32_add (Finite 10737418 (- 28)) (Finite 10737418 (- 30)) = Finite 13421772 (- 28)"
  "f32_add (Finite 13421772 (- 28)) (Finite 10737418 (- 30)) = Finite 16106126 (- 28)"
  by code_simp+

lemma cancel_speed:
  "axis_step True True (Finite 10737418 (- 30)) (Finite 0 (- 149)) = Finite 0 (- 149)"
  by code_simp

lemma less_4_cases: "k < (4::nat) \<Longrightarrow> k = 0 \<or> k = Suc 0 \<or> k = Suc (Suc 0) \<or> k = Suc (Suc (Suc 0))"
  by arith

lemma exact_speed:
  assumes "k < 4"
  shows "adds_exactly (accumulate (Finite 10737418 (- 30)) k (Finite 0 (- 149)))
              (Finite 10737418 (- 30))"
proof -
  from assms consider "k = 0" | "k = Suc 0" | "k = Suc (Suc 0)" | "k = Suc (Suc (Suc 0))"
    using less_4_cases by blast
  then show ?thesis
    by cases (simp_all add: adds_exactly_def accumulate_simps speed_chain)
qed

lemma fold_iteration_angle:
  "angle (fold iteration fs s) = accumulate angle_step (length fs) (angle s)"
proof (induction fs arbitrary: s)
  case Nil
  show ?case by (simp add: accumulate_def)
next
  case (Cons f fs)
  have "angle (fold iteration (f # fs) s) = accumulate angle_step (length fs) (f32_add (angle s) angle_step)"
    by (simp add: Cons.IH iteration_eq)
  also have "\<dots> = accumulate angle_step (length (f # fs)) (angle s)"
    unfolding accumulate_def by (simp del: funpow.simps add: funpow_Suc_right)
  finally show ?case .
qed

lemma angle_step_nonneg: "f32_nonneg angle_step"
  by (simp add: angle_step_def lit_values)

lemma step_chain:
  "f32_add (Finite 0 (- 149)) (Finite 10737418 (- 32)) = Finite 10737418 (- 32)"
  "f32_add (Finite 10737418 (- 32)) (Finite 10737418 (- 32)) = Finite 10737418 (- 31)"
  "f32_add (Finite 10737418 (- 31)) (Finite 10737418 (- 32)) = Finite 16106127 (- 31)"
  "f32_add (Finite 16106127 (- 31)) (Finite 10737418 (- 32)) = Finite 10737418 (- 30)"
  "f32_add (Finite 10737418 (- 30)) (Finite 10737418 (- 32)) = Finite 13421772 (- 30)"
  "f32_add (Finite 8388608 (- 7)) (Finite 10737418 (- 32)) = Finite 8388608 (- 7)"
  by code_simp+

section \<open>Properties of the application\<close>

text \<open>
  Claim C2.  Two runs on the same platform whose frames carry the same events, whatever
  keys are held in them, show the same thing to the outside: the same exit status, or none
  in both, and the same world, that is the same calls in the same order with the same
  arguments (among them every matrix uploaded as \<open>mvp\<close> and every draw call) and the same
  device state.  The view and projection matrices are set before the loop and no pass of
  the loop changes them; the camera position is used by nothing that is drawn.
\<close>

theorem keyboard_never_reaches_the_screen:
  "(map events fs = map events fs' \<longrightarrow> observable (main env fs) = observable (main env fs'))
   \<and> view (run_loop fs s) = view s \<and> projection (run_loop fs s) = projection s"
proof -
  have "observable (main env fs) = observable (main env fs')" if ev: "map events fs = map events fs'"
  proof (cases "initialise env (initial_world env)")
    case (Inl a)
    then show ?thesis by (simp add: main_def split: prod.splits)
  next
    case (Inr w)
    show ?thesis
    proof (cases "make_scene w")
      case None
      with Inr show ?thesis by (simp add: main_def)
    next
      case (Some s0)
      have fc: "forget_camera (run_loop fs s0) = forget_camera (run_loop fs' s0)"
        by (rule forget_run_loop [OF ev refl])
      then have r: "running (run_loop fs s0) = running (run_loop fs' s0)"
        by (metis running_forget)
      from fc have d: "dev (run_loop fs s0) = dev (run_loop fs' s0)"
        by (metis dev_forget)
      from fc have t: "teardown (run_loop fs s0) = teardown (run_loop fs' s0)"
        by (metis teardown_forget)
      show ?thesis
        using r d t by (simp add: main_def Inr Some Let_def)
    qed
  qed
  then show ?thesis by (simp add: run_loop_keeps_view)
qed

theorem keyboard_never_reaches_the_screen_witness:
  "map events [\<lparr>events = [], keys = {SDL_SCANCODE_D}\<rparr>, \<lparr>events = [SDL_QUIT], keys = {}\<rparr>]
     = map events [\<lparr>events = [], keys = {SDL_SCANCODE_W, SDL_SCANCODE_A}\<rparr>,
                   \<lparr>events = [SDL_QUIT], keys = {SDL_SCANCODE_SPACE}\<rparr>]
   \<and> observable (main demo_env
         [\<lparr>events = [], keys = {SDL_SCANCODE_D}\<rparr>, \<lparr>events = [SDL_QUIT], keys = {}\<rparr>])
     = observable (main demo_env
         [\<lparr>events = [], keys = {SDL_SCANCODE_W, SDL_SCANCODE_A}\<rparr>,
          \<lparr>events = [SDL_QUIT], keys = {SDL_SCANCODE_SPACE}\<rparr>])"
proof -
  let ?fs = "[\<lparr>events = [], keys = {SDL_SCANCODE_D}\<rparr>, \<lparr>events = [SDL_QUIT], keys = {}\<rparr>]"
  let ?fs' = "[\<lparr>events = [], keys = {SDL_SCANCODE_W, SDL_SCANCODE_A}\<rparr>,
               \<lparr>events = [SDL_QUIT], keys = {SDL_SCANCODE_SPACE}\<rparr>]"
  have e: "map events ?fs = map events ?fs'" by simp
  from keyboard_never_reaches_the_screen [where fs = ?fs and fs' = ?fs' and env = demo_env]
  have "map events ?fs = map events ?fs' \<longrightarrow>
          observable (main demo_env ?fs) = observable (main demo_env ?fs')"
    by blast
  with e show ?thesis by blast
qed

text \<open>
  Claim C3.  On a platform where start-up succeeds, with a quit event as the only event
  pending when the loop first polls, \<open>main\<close> returns 0.  The calls to SDL and GLEW of
  the whole run are the start-up chain once (one \<open>SDL_Init\<close>, one window, one context,
  one \<open>glewInit\<close>), the two polls and the one buffer swap of the single pass of the loop
  that sees the quit event, and then \<open>SDL_GL_DeleteContext\<close>, \<open>SDL_DestroyWindow\<close>
  and \<open>SDL_Quit\<close>.  At exit the context, the window and SDL are down and no vertex
  array or buffer is left allocated.
\<close>

theorem immediate_quit:
  assumes "\<not> init_fails env"
  shows "\<exists>w. main env (\<lparr>events = [SDL_QUIT], keys = ks\<rparr> # rest) = Exit 0 w
           \<and> platform_calls w =
               [SDL_Init (sdl_init_result env),
                SDL_GL_SetAttribute SDL_GL_CONTEXT_MAJOR_VERSION 3,
                SDL_GL_SetAttribute SDL_GL_CONTEXT_MINOR_VERSION 3,
                SDL_GL_SetAttribute SDL_GL_CONTEXT_PROFILE_MASK 1,
                SDL_CreateWindow ''Voxel Engine'' 800 600 True,
                SDL_GL_CreateContext True,
                Set_glewExperimental True,
                GlewInit True,
                SDL_GetKeyboardState,
                SDL_PollEvent (Some SDL_QUIT),
                SDL_PollEvent None,
                SDL_GL_SwapWindow,
                SDL_GL_DeleteContext,
                SDL_DestroyWindow,
                SDL_Quit]
           \<and> \<not> sdl_up w \<and> \<not> window_live w \<and> \<not> context_live w
           \<and> allocation_count w = 0"
proof -
  from main_ok [OF assms] obtain s0 where
    m: "\<And>fs. main env fs =
                  (if running (run_loop fs s0) then Running_on (run_loop fs s0)
                   else Exit 0 (teardown (run_loop fs s0)))"
    and pc: "platform_calls (dev s0) = init_calls env @ [SDL_GetKeyboardState]"
    and r: "running s0"
    by blast
  let ?f = "\<lparr>events = [SDL_QUIT], keys = ks\<rparr>"
  have nr: "\<not> running (iteration ?f s0)"
    by (simp add: iteration_eq)
  have rl: "run_loop (?f # rest) s0 = iteration ?f s0"
    using r by (simp add: run_loop_stopped [OF nr])
  have ex: "main env (?f # rest) = Exit 0 (teardown (iteration ?f s0))"
    by (simp only: m rl nr if_False)
  have pt: "platform_calls (teardown (iteration ?f s0)) =
              platform_calls (dev (iteration ?f s0))
              @ [SDL_GL_DeleteContext, SDL_DestroyWindow, SDL_Quit]"
    by (simp add: teardown_eq platform_calls_def)
  have pi: "platform_calls (dev (iteration ?f s0)) =
              platform_calls (dev s0)
              @ [SDL_PollEvent (Some SDL_QUIT), SDL_PollEvent None, SDL_GL_SwapWindow]"
    by (simp add: iteration_eq platform_frame_world)
  have fl: "\<not> sdl_up (teardown (iteration ?f s0)) \<and> \<not> window_live (teardown (iteration ?f s0))
      \<and> \<not> context_live (teardown (iteration ?f s0))
      \<and> allocation_count (teardown (iteration ?f s0)) = 0"
    by (simp add: teardown_eq allocation_count_def)
  show ?thesis
    using fl by (simp add: ex pt pi pc init_calls_def)
qed

theorem immediate_quit_witness:
  "\<not> init_fails demo_env
   \<and> fst (observable (main demo_env [\<lparr>events = [SDL_QUIT], keys = {}\<rparr>])) = Some 0"
proof -
  from immediate_quit [OF demo_env_ok, of "{}" "[]"]
  obtain w where "main demo_env [\<lparr>events = [SDL_QUIT], keys = {}\<rparr>] = Exit 0 w"
    by blast
  with demo_env_ok show ?thesis by simp
qed

text \<open>
  Claim C8.  Each of the four failures of the start-up chain ends the run at once with
  status 1, whatever frames would have come: the run consists of the calls up to the
  failing one, the console diagnostic (for the three SDL failures its fixed text, then
  the call of \<open>SDL_GetError\<close>, then the message and the end of line), and the release of
  what had been acquired, in reverse order (nothing after a failed \<open>SDL_Init\<close>;
  \<open>SDL_Quit\<close> after a failed window; \<open>SDL_DestroyWindow\<close> and \<open>SDL_Quit\<close> after a failed
  context; \<open>SDL_GL_DeleteContext\<close>, \<open>SDL_DestroyWindow\<close> and \<open>SDL_Quit\<close> after a failed
  \<open>glewInit\<close>).  The world at exit is the initial world but for the record of calls, so
  SDL, the window and the context are down.  When the chain succeeds nothing else is
  fatal, whatever the shader compiler and linker answer: \<open>main\<close> is either still in its
  loop or has returned 0; it returns 0 when some frame brings a quit event and it is
  still in its loop when none does.
\<close>

theorem fatal_initialisation:
  "(sdl_init_result env < 0 \<longrightarrow>
      main env frames = Exit 1 ((initial_world env)\<lparr>trace :=
        [SDL_Init (sdl_init_result env),
         Cout ''SDL could not initialize! SDL_Error: '',
         SDL_GetError (sdl_error env),
         Cout (sdl_error env @ endl)]\<rparr>))
   \<and> (\<not> sdl_init_result env < 0 \<and> \<not> window_created env \<longrightarrow>
      main env frames = Exit 1 ((initial_world env)\<lparr>trace :=
        [SDL_Init (sdl_init_result env),
         SDL_GL_SetAttribute SDL_GL_CONTEXT_MAJOR_VERSION 3,
         SDL_GL_SetAttribute SDL_GL_CONTEXT_MINOR_VERSION 3,
         SDL_GL_SetAttribute SDL_GL_CONTEXT_PROFILE_MASK 1,
         SDL_CreateWindow ''Voxel Engine'' 800 600 False,
         Cout ''Window could not be created! SDL_Error: '',
         SDL_GetError (sdl_error env),
         Cout (sdl_error env @ endl),
         SDL_Quit]\<rparr>))
   \<and> (\<not> sdl_init_result env < 0 \<and> window_created env \<and> \<not> context_created env \<longrightarrow>
      main env frames = Exit 1 ((initial_world env)\<lparr>trace :=
        [SDL_Init (sdl_init_result env),
         SDL_GL_SetAttribute SDL_GL_CONTEXT_MAJOR_VERSION 3,
         SDL_GL_SetAttribute SDL_GL_CONTEXT_MINOR_VERSION 3,
         SDL_GL_SetAttribute SDL_GL_CONTEXT_PROFILE_MASK 1,
         SDL_CreateWindow ''Voxel Engine'' 800 600 True,
         SDL_GL_CreateContext False,
         Cout ''OpenGL context could not be created! SDL_Error: '',
         SDL_GetError (sdl_error env),
         Cout (sdl_error env @ endl),
         SDL_DestroyWindow,
         SDL_Quit]\<rparr>))
   \<and> (\<not> sdl_init_result env < 0 \<and> window_created env \<and> context_created env
       \<and> \<not> glew_ok env \<longrightarrow>
      main env frames = Exit 1 ((initial_world env)\<lparr>trace :=
        [SDL_Init (sdl_init_result env),
         SDL_GL_SetAttribute SDL_GL_CONTEXT_MAJOR_VERSION 3,
         SDL_GL_SetAttribute SDL_GL_CONTEXT_MINOR_VERSION 3,
         SDL_GL_SetAttribute SDL_GL_CONTEXT_PROFILE_MASK 1,
         SDL_CreateWindow ''Voxel Engine'' 800 600 True,
         SDL_GL_CreateContext True,
         Set_glewExperimental True,
         GlewInit False,
         Cout (''GLEW could not initialize!'' @ endl),
         SDL_GL_DeleteContext,
         SDL_DestroyWindow,
         SDL_Quit]\<rparr>))
   \<and> (\<not> init_fails env \<longrightarrow>
        ((\<exists>s. main env frames = Running_on s \<and> running s)
         \<or> (\<exists>w. main env frames = Exit 0 w))
        \<and> ((\<exists>f \<in> set frames. SDL_QUIT \<in> set (events f)) \<longrightarrow>
              (\<exists>w. main env frames = Exit 0 w))
        \<and> ((\<forall>f \<in> set frames. SDL_QUIT \<notin> set (events f)) \<longrightarrow>
              (\<exists>s. main env frames = Running_on s \<and> running s)))
   \<and> \<not> sdl_up (initial_world env) \<and> \<not> window_live (initial_world env)
   \<and> \<not> context_live (initial_world env)"
proof -
  have last: "((\<exists>s. main env frames = Running_on s \<and> running s)
         \<or> (\<exists>w. main env frames = Exit 0 w))
        \<and> ((\<exists>f \<in> set frames. SDL_QUIT \<in> set (events f)) \<longrightarrow>
              (\<exists>w. main env frames = Exit 0 w))
        \<and> ((\<forall>f \<in> set frames. SDL_QUIT \<notin> set (events f)) \<longrightarrow>
              (\<exists>s. main env frames = Running_on s \<and> running s))"
    if ok: "\<not> init_fails env"
  proof -
    from main_ok [OF ok] obtain s0 where
      m: "main env frames =
                  (if running (run_loop frames s0) then Running_on (run_loop frames s0)
                   else Exit 0 (teardown (run_loop frames s0)))"
      and r: "running s0"
      by blast
    have q: "\<not> running (run_loop frames s0)"
      if "\<exists>f \<in> set frames. SDL_QUIT \<in> set (events f)"
      using run_loop_quits [OF that] .
    have n: "running (run_loop frames s0)"
      if nq: "\<forall>f \<in> set frames. SDL_QUIT \<notin> set (events f)"
    proof -
      from nq have "\<forall>f \<in> set (butlast frames). SDL_QUIT \<notin> set (events f)"
        by (meson in_set_butlastD)
      from run_loop_fold [OF r this] running_fold_iteration [OF r nq]
      show ?thesis by simp
    qed
    show ?thesis
    proof (cases "running (run_loop frames s0)")
      case True
      with m have "main env frames = Running_on (run_loop frames s0)" by simp
      with True q show ?thesis by blast
    next
      case False
      with m have "main env frames = Exit 0 (teardown (run_loop frames s0))" by simp
      with False n show ?thesis by blast
    qed
  qed
  have flags: "\<not> sdl_up (initial_world env) \<and> \<not> window_live (initial_world env)
      \<and> \<not> context_live (initial_world env)"
    by (simp add: initial_world_def)
  have a: "sdl_init_result env < 0 \<longrightarrow>
      main env frames = Exit 1 ((initial_world env)\<lparr>trace :=
        [SDL_Init (sdl_init_result env),
         Cout ''SDL could not initialize! SDL_Error: '',
         SDL_GetError (sdl_error env),
         Cout (sdl_error env @ endl)]\<rparr>)"
    by (simp add: main_def initialise_sdl_fails)
  have b: "\<not> sdl_init_result env < 0 \<and> \<not> window_created env \<longrightarrow>
      main env frames = Exit 1 ((initial_world env)\<lparr>trace :=
        [SDL_Init (sdl_init_result env),
         SDL_GL_SetAttribute SDL_GL_CONTEXT_MAJOR_VERSION 3,
         SDL_GL_SetAttribute SDL_GL_CONTEXT_MINOR_VERSION 3,
         SDL_GL_SetAttribute SDL_GL_CONTEXT_PROFILE_MASK 1,
         SDL_CreateWindow ''Voxel Engine'' 800 600 False,
         Cout ''Window could not be created! SDL_Error: '',
         SDL_GetError (sdl_error env),
         Cout (sdl_error env @ endl),
         SDL_Quit]\<rparr>)"
    by (simp add: main_def initialise_window_fails)
  have c: "\<not> sdl_init_result env < 0 \<and> window_created env \<and> \<not> context_created env \<longrightarrow>
      main env frames = Exit 1 ((initial_world env)\<lparr>trace :=
        [SDL_Init (sdl_init_result env),
         SDL_GL_SetAttribute SDL_GL_CONTEXT_MAJOR_VERSION 3,
         SDL_GL_SetAttribute SDL_GL_CONTEXT_MINOR_VERSION 3,
         SDL_GL_SetAttribute SDL_GL_CONTEXT_PROFILE_MASK 1,
         SDL_CreateWindow ''Voxel Engine'' 800 600 True,
         SDL_GL_CreateContext False,
         Cout ''OpenGL context could not be created! SDL_Error: '',
         SDL_GetError (sdl_error env),
         Cout (sdl_error env @ endl),
         SDL_DestroyWindow,
         SDL_Quit]\<rparr>)"
    by (simp add: main_def initialise_context_fails)
  have d: "\<not> sdl_init_result env < 0 \<and> window_created env \<and> context_created env
       \<and> \<not> glew_ok env \<longrightarrow>
      main env frames = Exit 1 ((initial_world env)\<lparr>trace :=
        [SDL_Init (sdl_init_result env),
         SDL_GL_SetAttribute SDL_GL_CONTEXT_MAJOR_VERSION 3,
         SDL_GL_SetAttribute SDL_GL_CONTEXT_MINOR_VERSION 3,
         SDL_GL_SetAttribute SDL_GL_CONTEXT_PROFILE_MASK 1,
         SDL_CreateWindow ''Voxel Engine'' 800 600 True,
         SDL_GL_CreateContext True,
         Set_glewExperimental True,
         GlewInit False,
         Cout (''GLEW could not initialize!'' @ endl),
         SDL_GL_DeleteContext,
         SDL_DestroyWindow,
         SDL_Quit]\<rparr>)"
    by (simp add: main_def initialise_glew_fails)
  from a b c d last flags show ?thesis by blast
qed

theorem fatal_initialisation_witness:
  "main (demo_env\<lparr>sdl_init_result := - 1, sdl_error := ''no video''\<rparr>) [] =
     Exit 1 ((initial_world (demo_env\<lparr>sdl_init_result := - 1, sdl_error := ''no video''\<rparr>))
       \<lparr>trace := [SDL_Init (- 1),
                  Cout ''SDL could not initialize! SDL_Error: '',
                  SDL_GetError ''no video'',
                  Cout (''no video'' @ endl)]\<rparr>)
   \<and> (\<exists>w. main (demo_env\<lparr>window_created := False\<rparr>) [] = Exit 1 w \<and> \<not> sdl_up w)
   \<and> (\<exists>w. main (demo_env\<lparr>context_created := False\<rparr>) [] = Exit 1 w \<and> \<not> window_live w)
   \<and> (\<exists>w. main (demo_env\<lparr>glew_ok := False\<rparr>) [] = Exit 1 w \<and> \<not> context_live w)
   \<and> \<not> init_fails demo_env
   \<and> (\<exists>w. main demo_env [\<lparr>events = [SDL_QUIT], keys = {}\<rparr>] = Exit 0 w)
   \<and> (\<exists>s. main demo_env [\<lparr>events = [], keys = {}\<rparr>] = Running_on s \<and> running s)
   \<and> \<not> init_fails failing_env
   \<and> (\<exists>w. main failing_env [\<lparr>events = [SDL_QUIT], keys = {}\<rparr>] = Exit 0 w)"
proof -
  let ?e1 = "demo_env\<lparr>sdl_init_result := - 1, sdl_error := ''no video''\<rparr>"
  let ?e2 = "demo_env\<lparr>window_created := False\<rparr>"
  let ?e3 = "demo_env\<lparr>context_created := False\<rparr>"
  let ?e4 = "demo_env\<lparr>glew_ok := False\<rparr>"
  let ?quit = "\<lparr>events = [SDL_QUIT], keys = {}\<rparr>"
  let ?idle = "\<lparr>events = [], keys = {}\<rparr>"
  have a: "main ?e1 [] = Exit 1 ((initial_world ?e1)
       \<lparr>trace := [SDL_Init (- 1),
                  Cout ''SDL could not initialize! SDL_Error: '',
                  SDL_GetError ''no video'',
                  Cout (''no video'' @ endl)]\<rparr>)"
    using fatal_initialisation [of ?e1 "[]"] by simp
  have b: "\<exists>w. main ?e2 [] = Exit 1 w \<and> \<not> sdl_up w"
    using fatal_initialisation [of ?e2 "[]"] by (simp add: demo_env_def)
  have c: "\<exists>w. main ?e3 [] = Exit 1 w \<and> \<not> window_live w"
    using fatal_initialisation [of ?e3 "[]"] by (simp add: demo_env_def)
  have d: "\<exists>w. main ?e4 [] = Exit 1 w \<and> \<not> context_live w"
    using fatal_initialisation [of ?e4 "[]"] by (simp add: demo_env_def)
  have e: "\<exists>w. main demo_env [?quit] = Exit 0 w"
    using fatal_initialisation [of demo_env "[?quit]"] demo_env_ok by simp
  have f: "\<exists>s. main demo_env [?idle] = Running_on s \<and> running s"
    using fatal_initialisation [of demo_env "[?idle]"] demo_env_ok by simp
  have fe: "\<not> init_fails failing_env"
    by (simp add: init_fails_def failing_env_def demo_env_def)
  have g: "\<exists>w. main failing_env [?quit] = Exit 0 w"
    using fatal_initialisation [of failing_env "[?quit]"] fe by simp
  from a b c d e f fe g demo_env_ok show ?thesis by blast
qed

text \<open>
  Claim C1, as amended.  Take \<open>N\<close> passes of the loop that are all executed (the loop is
  running and no pass before the last sees a quit event).  Each camera coordinate is
  changed once per pass and only by its own two keys: \<open>cameraX\<close> by D (add \<open>moveSpeed\<close>)
  and then A (subtract it), \<open>cameraY\<close> by SPACE and LSHIFT, \<open>cameraZ\<close> by W and S;
  \<open>moveSpeed\<close> stays what it is.  If D is held and A is not held in each of the \<open>N\<close>
  passes, \<open>cameraX\<close> is afterwards the result of \<open>N\<close> successive single-precision additions
  of \<open>moveSpeed\<close> to its value before, the same for the same number of passes; and where none
  of these additions rounds, the change is exactly \<open>N * moveSpeed\<close>.
\<close>

theorem camera_integration:
  assumes "running s" and "\<forall>f \<in> set (butlast fs). SDL_QUIT \<notin> set (events f)"
  shows "cameraX (run_loop fs s) =
           fold (\<lambda>f. axis_step (SDL_SCANCODE_D \<in> keys f) (SDL_SCANCODE_A \<in> keys f) (moveSpeed s))
             fs (cameraX s)
       \<and> cameraY (run_loop fs s) =
           fold (\<lambda>f. axis_step (SDL_SCANCODE_SPACE \<in> keys f) (SDL_SCANCODE_LSHIFT \<in> keys f)
                        (moveSpeed s))
             fs (cameraY s)
       \<and> cameraZ (run_loop fs s) =
           fold (\<lambda>f. axis_step (SDL_SCANCODE_W \<in> keys f) (SDL_SCANCODE_S \<in> keys f) (moveSpeed s))
             fs (cameraZ s)
       \<and> moveSpeed (run_loop fs s) = moveSpeed s
       \<and> ((\<forall>f \<in> set fs. SDL_SCANCODE_D \<in> keys f \<and> SDL_SCANCODE_A \<notin> keys f) \<longrightarrow>
            cameraX (run_loop fs s) = accumulate (moveSpeed s) (length fs) (cameraX s)
            \<and> ((\<forall>k < length fs. adds_exactly (accumulate (moveSpeed s) k (cameraX s)) (moveSpeed s))
                 \<longrightarrow> f32_value (cameraX (run_loop fs s))
                       = f32_value (cameraX s) + real (length fs) * f32_value (moveSpeed s)))"
proof -
  have rl: "run_loop fs s = fold iteration fs s"
    by (rule run_loop_fold [OF assms])
  have held: "cameraX (run_loop fs s) = accumulate (moveSpeed s) (length fs) (cameraX s)"
    if "\<forall>f \<in> set fs. SDL_SCANCODE_D \<in> keys f \<and> SDL_SCANCODE_A \<notin> keys f"
    using fold_held [of fs "\<lambda>f. SDL_SCANCODE_D \<in> keys f" "\<lambda>f. SDL_SCANCODE_A \<in> keys f"
        "moveSpeed s" "cameraX s"] that
    by (simp add: rl fold_iteration_camera)
  show ?thesis
    using held accumulate_exact [of "length fs" "moveSpeed s" "cameraX s"]
    by (simp add: rl fold_iteration_camera)
qed

theorem camera_integration_witness:
  "case main demo_env [\<lparr>events = [], keys = {SDL_SCANCODE_D}\<rparr>,
                       \<lparr>events = [], keys = {SDL_SCANCODE_D}\<rparr>,
                       \<lparr>events = [], keys = {SDL_SCANCODE_D, SDL_SCANCODE_W}\<rparr>,
                       \<lparr>events = [], keys = {SDL_SCANCODE_D}\<rparr>] of
     Running_on s \<Rightarrow> cameraX s = Finite 10737418 (- 28)
                      \<and> f32_value (cameraX s) = 4 * f32_value (f32_lit 1 100)
   | _ \<Rightarrow> False"
proof -
  let ?fs = "[\<lparr>events = [], keys = {SDL_SCANCODE_D}\<rparr>,
              \<lparr>events = [], keys = {SDL_SCANCODE_D}\<rparr>,
              \<lparr>events = [], keys = {SDL_SCANCODE_D, SDL_SCANCODE_W}\<rparr>,
              \<lparr>events = [], keys = {SDL_SCANCODE_D}\<rparr>]"
  from main_running [OF demo_env_ok] obtain s0 where
    m: "main demo_env ?fs = Running_on (run_loop ?fs s0)"
    and r: "running s0"
    and x: "cameraX s0 = Finite 0 (- 149)" and v: "moveSpeed s0 = Finite 10737418 (- 30)"
    by (auto simp: lit_values)
  have nq: "\<forall>f \<in> set (butlast ?fs). SDL_QUIT \<notin> set (events f)" by simp
  have held: "\<forall>f \<in> set ?fs. SDL_SCANCODE_D \<in> keys f \<and> SDL_SCANCODE_A \<notin> keys f" by simp
  have ex: "\<forall>k < length ?fs. adds_exactly (accumulate (moveSpeed s0) k (cameraX s0)) (moveSpeed s0)"
    using exact_speed by (simp add: x v)
  from camera_integration [OF r nq] held ex
  have "cameraX (run_loop ?fs s0) = accumulate (moveSpeed s0) (length ?fs) (cameraX s0)"
    and "f32_value (cameraX (run_loop ?fs s0))
           = f32_value (cameraX s0) + real (length ?fs) * f32_value (moveSpeed s0)"
    by blast+
  then have "cameraX (run_loop ?fs s0) = Finite 10737418 (- 28)
      \<and> f32_value (cameraX (run_loop ?fs s0)) = 4 * f32_value (f32_lit 1 100)"
    by (simp add: x v accumulate_simps speed_chain lit_values)
  then show ?thesis
    by (simp del: run_loop.simps add: m lit_values)
qed

text \<open>
  The claim as it stands fails in two ways, both on the run of \<open>main\<close> itself, where
  \<open>cameraX\<close> starts at \<open>0.0f\<close> and \<open>moveSpeed\<close> is \<open>0.01f\<close>, that is
  \<open>10737418 / 2 ^ 30\<close>.  With D and A both held for one pass, \<open>cameraX\<close> is unchanged.
  With D alone held for six passes, \<open>cameraX\<close> is \<open>16106126 / 2 ^ 28\<close>, which is not six
  times \<open>moveSpeed\<close>: the fifth and the sixth addition round.
\<close>

theorem camera_integration_counterexample:
  "(case main demo_env [] of
      Running_on s \<Rightarrow> cameraX s = Finite 0 (- 149) \<and> moveSpeed s = Finite 10737418 (- 30)
    | _ \<Rightarrow> False)
   \<and> (case main demo_env [\<lparr>events = [], keys = {SDL_SCANCODE_D, SDL_SCANCODE_A}\<rparr>] of
        Running_on s \<Rightarrow> cameraX s = Finite 0 (- 149)
      | _ \<Rightarrow> False)
   \<and> (case main demo_env [\<lparr>events = [], keys = {SDL_SCANCODE_D}\<rparr>,
                          \<lparr>events = [], keys = {SDL_SCANCODE_D}\<rparr>,
                          \<lparr>events = [], keys = {SDL_SCANCODE_D}\<rparr>,
                          \<lparr>events = [], keys = {SDL_SCANCODE_D}\<rparr>,
                          \<lparr>events = [], keys = {SDL_SCANCODE_D}\<rparr>,
                          \<lparr>events = [], keys = {SDL_SCANCODE_D}\<rparr>] of
        Running_on s \<Rightarrow> cameraX s = Finite 16106126 (- 28)
      | _ \<Rightarrow> False)
   \<and> f32_value (Finite 0 (- 149)) - f32_value (Finite 0 (- 149))
       \<noteq> 1 * f32_value (Finite 10737418 (- 30))
   \<and> f32_value (Finite 16106126 (- 28)) - f32_value (Finite 0 (- 149))
       \<noteq> 6 * f32_value (Finite 10737418 (- 30))"
proof -
  let ?da = "[\<lparr>events = [], keys = {SDL_SCANCODE_D, SDL_SCANCODE_A}\<rparr>]"
  let ?d = "\<lparr>events = [], keys = {SDL_SCANCODE_D}\<rparr>"
  let ?d6 = "[?d, ?d, ?d, ?d, ?d, ?d]"
  from main_running [OF demo_env_ok] obtain s0 where
    m: "\<And>fs. (\<forall>f \<in> set fs. SDL_QUIT \<notin> set (events f)) \<Longrightarrow>
                    main demo_env fs = Running_on (run_loop fs s0)"
    and r: "running s0"
    and x: "cameraX s0 = Finite 0 (- 149)" and v: "moveSpeed s0 = Finite 10737418 (- 30)"
    by (auto simp: lit_values)
  have a: "main demo_env [] = Running_on s0"
    using m [of "[]"] by simp
  have b: "main demo_env ?da = Running_on (run_loop ?da s0)"
    by (rule m) simp
  have c: "main demo_env ?d6 = Running_on (run_loop ?d6 s0)"
    by (rule m) simp
  have xb: "cameraX (run_loop ?da s0) = Finite 0 (- 149)"
    using r by (simp add: iteration_eq x v cancel_speed)
  have "run_loop ?d6 s0 = fold iteration ?d6 s0"
    by (rule run_loop_fold [OF r]) simp
  then have "cameraX (run_loop ?d6 s0)
               = fold (\<lambda>f. axis_step (SDL_SCANCODE_D \<in> keys f) (SDL_SCANCODE_A \<in> keys f)
                        (moveSpeed s0)) ?d6 (cameraX s0)"
    by (simp only: fold_iteration_camera)
  also have "\<dots> = accumulate (moveSpeed s0) (length ?d6) (cameraX s0)"
    by (rule fold_held) simp
  finally have xc: "cameraX (run_loop ?d6 s0) = Finite 16106126 (- 28)"
    by (simp add: x v accumulate_simps speed_chain)
  have 1: "case main demo_env [] of
      Running_on s \<Rightarrow> cameraX s = Finite 0 (- 149) \<and> moveSpeed s = Finite 10737418 (- 30)
    | _ \<Rightarrow> False"
    by (simp only: a outcome.case x v)
  have 2: "case main demo_env ?da of
        Running_on s \<Rightarrow> cameraX s = Finite 0 (- 149)
      | _ \<Rightarrow> False"
    by (simp only: b outcome.case xb)
  have 3: "case main demo_env ?d6 of
        Running_on s \<Rightarrow> cameraX s = Finite 16106126 (- 28)
      | _ \<Rightarrow> False"
    by (simp only: c outcome.case xc)
  have 4: "f32_value (Finite 0 (- 149)) - f32_value (Finite 0 (- 149))
       \<noteq> 1 * f32_value (Finite 10737418 (- 30))"
    by simp
  have 5: "f32_value (Finite 16106126 (- 28)) - f32_value (Finite 0 (- 149))
       \<noteq> 6 * f32_value (Finite 10737418 (- 30))"
    by simp
  show ?thesis
    by (intro conjI) (rule 1, rule 2, rule 3, rule 4, rule 5)
qed

text \<open>
  Claim C10, as amended.  Every pass of the loop makes its calls in this order: the polls
  that take the pending events (a quit event clears \<open>running\<close>), \<open>glClearColor\<close> and
  \<open>glClear\<close> of the colour and depth buffers, \<open>glUseProgram\<close>, the look-up of \<open>mvp\<close>
  and the upload of projection times view times model as the one uniform, the three calls
  of \<open>draw\<close>, and the buffer swap.  The camera is updated from the keys held, and the
  model matrix uploaded is the rotation about the axis \<open>(0, 1, 0)\<close> by the angle the pass
  started with.  The angle is then advanced, once per pass and as its last step, by one
  single-precision addition of the constant \<open>0.0025f\<close>.  Starting from a value that is not
  negative it never decreases; it advances by exactly the constant, which is positive,
  where the addition does not round.
\<close>

theorem iteration_steps:
  "(\<exists>loc. trace (dev (iteration f s)) =
      trace (dev s) @ map (\<lambda>e. SDL_PollEvent (Some e)) (events f)
      @ [SDL_PollEvent None,
         GlClearColor (f32_lit 2 10) (f32_lit 3 10) (f32_lit 3 10) (f32_lit 1 1),
         GlClear [GL_COLOR_BUFFER_BIT, GL_DEPTH_BUFFER_BIT],
         GlUseProgram (programID (shader s)),
         GlGetUniformLocation (programID (shader s)) ''mvp'' loc,
         GlUniformMatrix4fv loc 1 False
           (Times (Times (projection s) (view s))
              (Rotate Mat4_identity (angle s) (Vec3 (f32_lit 0 1) (f32_lit 1 1) (f32_lit 0 1)))),
         GlBindVertexArray (VAO (cube s)),
         GlDrawElements_TRIANGLES_UNSIGNED_INT (indexCount (cube s)) 0,
         GlBindVertexArray 0,
         SDL_GL_SwapWindow])
   \<and> running (iteration f s) = (running s \<and> SDL_QUIT \<notin> set (events f))
   \<and> cameraX (iteration f s) = cameraX (update_camera (keys f) s)
   \<and> cameraY (iteration f s) = cameraY (update_camera (keys f) s)
   \<and> cameraZ (iteration f s) = cameraZ (update_camera (keys f) s)
   \<and> model (iteration f s)
       = Rotate Mat4_identity (angle s) (Vec3 (f32_lit 0 1) (f32_lit 1 1) (f32_lit 0 1))
   \<and> angle (iteration f s) = f32_add (angle s) angle_step
   \<and> (f32_nonneg (angle s) \<longrightarrow>
        f32_nonneg (angle (iteration f s)) \<and> f32_le (angle s) (angle (iteration f s)))
   \<and> (adds_exactly (angle s) angle_step \<longrightarrow>
        f32_value (angle (iteration f s)) = f32_value (angle s) + f32_value angle_step)
   \<and> 0 < f32_value angle_step"
proof -
  have a: "angle (iteration f s) = f32_add (angle s) angle_step"
    by (simp add: iteration_eq)
  have mono: "f32_nonneg (angle (iteration f s)) \<and> f32_le (angle s) (angle (iteration f s))"
    if "f32_nonneg (angle s)"
    unfolding a by (rule f32_add_nonneg [OF that angle_step_nonneg])
  have ex: "f32_value (angle (iteration f s)) = f32_value (angle s) + f32_value angle_step"
    if "adds_exactly (angle s) angle_step"
    using that unfolding a by (simp add: adds_exactly_def)
  have pos: "0 < f32_value angle_step"
    by (simp add: angle_step_def lit_values)
  from trace_frame_world [of "events f" "shader s" "cube s"
      "Times (Times (projection s) (view s)) (Rotate Mat4_identity (angle s) up_axis)" "dev s"]
  have tr: "\<exists>loc. trace (dev (iteration f s)) =
      trace (dev s) @ map (\<lambda>e. SDL_PollEvent (Some e)) (events f)
      @ [SDL_PollEvent None,
         GlClearColor (f32_lit 2 10) (f32_lit 3 10) (f32_lit 3 10) (f32_lit 1 1),
         GlClear [GL_COLOR_BUFFER_BIT, GL_DEPTH_BUFFER_BIT],
         GlUseProgram (programID (shader s)),
         GlGetUniformLocation (programID (shader s)) ''mvp'' loc,
         GlUniformMatrix4fv loc 1 False
           (Times (Times (projection s) (view s))
              (Rotate Mat4_identity (angle s) (Vec3 (f32_lit 0 1) (f32_lit 1 1) (f32_lit 0 1)))),
         GlBindVertexArray (VAO (cube s)),
         GlDrawElements_TRIANGLES_UNSIGNED_INT (indexCount (cube s)) 0,
         GlBindVertexArray 0,
         SDL_GL_SwapWindow]"
    by (simp add: iteration_eq up_axis_def)
  have rest: "running (iteration f s) = (running s \<and> SDL_QUIT \<notin> set (events f))
   \<and> cameraX (iteration f s) = cameraX (update_camera (keys f) s)
   \<and> cameraY (iteration f s) = cameraY (update_camera (keys f) s)
   \<and> cameraZ (iteration f s) = cameraZ (update_camera (keys f) s)
   \<and> model (iteration f s)
       = Rotate Mat4_identity (angle s) (Vec3 (f32_lit 0 1) (f32_lit 1 1) (f32_lit 0 1))"
    by (simp add: iteration_eq update_camera_eq up_axis_def)
  from tr rest a mono ex pos show ?thesis
    by (intro conjI impI) (simp_all only: simp_thms)
qed

theorem iteration_steps_witness:
  "case main demo_env [\<lparr>events = [], keys = {}\<rparr>] of
     Running_on s \<Rightarrow> f32_nonneg (angle s) \<and> f32_value (angle s) = f32_value angle_step
   | _ \<Rightarrow> False"
proof -
  let ?f = "\<lparr>events = [], keys = {}\<rparr>"
  from main_running [OF demo_env_ok] obtain s0 where
    m: "main demo_env [?f] = Running_on (run_loop [?f] s0)"
    and r: "running s0" and a: "angle s0 = Finite 0 (- 149)"
    by (auto simp: lit_values)
  have nn: "f32_nonneg (angle s0)"
    by (simp add: a)
  have ex: "adds_exactly (angle s0) angle_step"
    by (simp add: a adds_exactly_def angle_step_def lit_values step_chain)
  from iteration_steps [of ?f s0] nn ex
  have "f32_nonneg (angle (iteration ?f s0))"
    and "f32_value (angle (iteration ?f s0)) = f32_value (angle s0) + f32_value angle_step"
    by blast+
  then have "f32_nonneg (angle (run_loop [?f] s0))
      \<and> f32_value (angle (run_loop [?f] s0)) = f32_value angle_step"
    using r by (simp add: a)
  then show ?thesis
    by (simp del: run_loop.simps add: m)
qed

text \<open>
  The claim as it stands has the angle advance by exactly 0.0025 in every frame.  On the
  run of \<open>main\<close> the angle is \<open>10737418 / 2 ^ 30\<close> after four frames and
  \<open>13421772 / 2 ^ 30\<close> after five: the fifth frame advances it by \<open>10737416 / 2 ^ 32\<close>,
  less than the constant \<open>0.0025f\<close>, which is \<open>10737418 / 2 ^ 32\<close>.  And at the value
  \<open>65536.0f\<close> the addition returns \<open>65536.0f\<close>: there the angle no longer advances.
\<close>

theorem iteration_steps_counterexample:
  "(case main demo_env [\<lparr>events = [], keys = {}\<rparr>, \<lparr>events = [], keys = {}\<rparr>,
                        \<lparr>events = [], keys = {}\<rparr>, \<lparr>events = [], keys = {}\<rparr>] of
      Running_on s \<Rightarrow> angle s = Finite 10737418 (- 30)
    | _ \<Rightarrow> False)
   \<and> (case main demo_env [\<lparr>events = [], keys = {}\<rparr>, \<lparr>events = [], keys = {}\<rparr>,
                          \<lparr>events = [], keys = {}\<rparr>, \<lparr>events = [], keys = {}\<rparr>,
                          \<lparr>events = [], keys = {}\<rparr>] of
        Running_on s \<Rightarrow> angle s = Finite 13421772 (- 30)
      | _ \<Rightarrow> False)
   \<and> angle_step = Finite 10737418 (- 32)
   \<and> f32_value (Finite 13421772 (- 30)) - f32_value (Finite 10737418 (- 30))
       \<noteq> f32_value (Finite 10737418 (- 32))
   \<and> f32_add (Finite 8388608 (- 7)) angle_step = Finite 8388608 (- 7)"
proof -
  let ?i = "\<lparr>events = [], keys = {}\<rparr>"
  let ?f4 = "[?i, ?i, ?i, ?i]"
  let ?f5 = "[?i, ?i, ?i, ?i, ?i]"
  from main_running [OF demo_env_ok] obtain s0 where
    m: "\<And>fs. (\<forall>f \<in> set fs. SDL_QUIT \<notin> set (events f)) \<Longrightarrow>
                    main demo_env fs = Running_on (run_loop fs s0)"
    and r: "running s0" and a: "angle s0 = Finite 0 (- 149)"
    by (auto simp: lit_values)
  have st: "angle_step = Finite 10737418 (- 32)"
    by (simp add: angle_step_def lit_values)
  have m4: "main demo_env ?f4 = Running_on (run_loop ?f4 s0)"
    by (rule m) simp
  have m5: "main demo_env ?f5 = Running_on (run_loop ?f5 s0)"
    by (rule m) simp
  have "run_loop ?f4 s0 = fold iteration ?f4 s0"
    by (rule run_loop_fold [OF r]) simp
  then have "angle (run_loop ?f4 s0) = accumulate angle_step (length ?f4) (angle s0)"
    by (simp only: fold_iteration_angle)
  then have a4: "angle (run_loop ?f4 s0) = Finite 10737418 (- 30)"
    by (simp add: a st accumulate_simps step_chain)
  have "run_loop ?f5 s0 = fold iteration ?f5 s0"
    by (rule run_loop_fold [OF r]) simp
  then have "angle (run_loop ?f5 s0) = accumulate angle_step (length ?f5) (angle s0)"
    by (simp only: fold_iteration_angle)
  then have a5: "angle (run_loop ?f5 s0) = Finite 13421772 (- 30)"
    by (simp add: a st accumulate_simps step_chain)
  have 1: "case main demo_env ?f4 of
      Running_on s \<Rightarrow> angle s = Finite 10737418 (- 30)
    | _ \<Rightarrow> False"
    by (simp only: m4 outcome.case a4)
  have 2: "case main demo_env ?f5 of
        Running_on s \<Rightarrow> angle s = Finite 13421772 (- 30)
      | _ \<Rightarrow> False"
    by (simp only: m5 outcome.case a5)
  have 4: "f32_value (Finite 13421772 (- 30)) - f32_value (Finite 10737418 (- 30))
       \<noteq> f32_value (Finite 10737418 (- 32))"
    by simp
  have 5: "f32_add (Finite 8388608 (- 7)) angle_step = Finite 8388608 (- 7)"
    by (simp add: st step_chain)
  show ?thesis
    by (intro conjI) (rule 1, rule 2, rule st, rule 4, rule 5)
qed

end
